theory Spec2Isabelle
  imports Complex_Main
begin

section \<open>Data model of the parser\<close>

text \<open>
  The parser of the repository (class \<open>Parser\<close>) turns a stream of tokens into a list of
  parse nodes. JavaScript strings are modelled by \<^typ>\<open>string\<close>; a token text that is a
  control sequence starts with the backslash character \<open>bs\<close>.
\<close>

definition bs :: char where
  "bs = CHR 0x5C"

datatype mode = MathMode | TextMode

text \<open>A source location is a span of offsets; \<open>None\<close> is a missing \<open>loc\<close>.\<close>

type_synonym sloc = "nat \<times> nat"

datatype token = Token (tok_text: string) (tok_loc: "sloc option")

text \<open>
  The value of a \<open>size\<close> node: \<open>{number, unit}\<close>. The number is the decimal numeral
  as written (in the input or in the source); JavaScript holds the double nearest to it.
\<close>

datatype sizeval = SizeVal (sv_number: rat) (sv_unit: string)

text \<open>
  The Number values that \<open>parseInt\<close> can return: \<open>NaN\<close>, an infinity, or a double whose
  value is an integer, given by its sign (\<open>True\<close> is negative, so \<open>-0\<close> is \<open>Integer True 0\<close>)
  and its absolute value.
\<close>

datatype number = NaN | Infinity bool | Integer bool nat

text \<open>
  Parse nodes, a tagged union. The kinds the parser itself builds carry the fields the
  parser writes. \<open>Infix\<close>, \<open>Op\<close>, \<open>OperatorName\<close> and \<open>ZInput\<close> are built by function
  handlers and read by the parser; \<open>Other\<close> stands for every further handler-made kind
  (its type tag, mode and child nodes). \<open>Symbol\<close> is a leaf \<open>{type, mode, loc, text}\<close> whose
  type tag is the group of the symbol table (\<open>textord\<close>, \<open>mathord\<close>, ...).
\<close>

datatype node =
    Atom mode string "sloc option" string
  | Symbol string mode "sloc option" string
  | OrdGroup mode "sloc option" "node list" bool
  | SupSub mode "node option" "node option" "node option"
  | Infix mode string "token option"
  | Accent mode "sloc option" string bool bool node
  | Color mode string "node list"
  | ColorToken mode string
  | Size mode sizeval bool
  | Url mode string
  | Raw mode string
  | Styling mode string "node list"
  | Verb mode string bool
  | TextNode mode "node list"
  | Op mode "bool option" bool string
  | OperatorName mode "bool option" bool "node list"
  | ZInput mode number sizeval
  | Other string mode "node list"

text \<open>
  Errors. \<open>ParseError\<close> is the parser's own exception (message and optional token);
  \<open>TypeError\<close> is a JavaScript runtime error (reading a property of \<open>undefined\<close>, a failed
  assertion); \<open>OutOfFuel\<close> is not an error of the program: it marks a run of the model
  that was cut off by its recursion bound.
\<close>

datatype error = ParseError string "token option" | TypeError string | OutOfFuel

fun node_type :: "node \<Rightarrow> string" where
  "node_type (Atom m f l t) = ''atom''"
| "node_type (Symbol g m l t) = g"
| "node_type (OrdGroup m l b s) = ''ordgroup''"
| "node_type (SupSub m b u d) = ''supsub''"
| "node_type (Infix m r t) = ''infix''"
| "node_type (Accent m l lab st sh b) = ''accent''"
| "node_type (Color m c b) = ''color''"
| "node_type (ColorToken m c) = ''color-token''"
| "node_type (Size m v b) = ''size''"
| "node_type (Url m u) = ''url''"
| "node_type (Raw m s) = ''raw''"
| "node_type (Styling m s b) = ''styling''"
| "node_type (Verb m b s) = ''verb''"
| "node_type (TextNode m b) = ''text''"
| "node_type (Op m l a n) = ''op''"
| "node_type (OperatorName m l a b) = ''operatorname''"
| "node_type (ZInput m i w) = ''zInput''"
| "node_type (Other ty m b) = ty"

text \<open>The property \<open>text\<close> of a node; \<open>None\<close> is \<open>undefined\<close>.\<close>

fun node_text :: "node \<Rightarrow> string option" where
  "node_text (Atom m f l t) = Some t"
| "node_text (Symbol g m l t) = Some t"
| "node_text n = None"

text \<open>The property \<open>loc\<close> of a node.\<close>

fun node_loc :: "node \<Rightarrow> sloc option" where
  "node_loc (Atom m f l t) = l"
| "node_loc (Symbol g m l t) = l"
| "node_loc (OrdGroup m l b s) = l"
| "node_loc (Accent m l lab st sh b) = l"
| "node_loc n = None"

text \<open>
  Modelled from the spec: \<open>SourceLocation.range\<close> is not among the sources. The spec says
  that source locations of collapsed nodes are unioned and that a composite token spans
  both positions: the span from the start of the first to the end of the second, missing
  when either is missing.
\<close>

fun range_loc :: "sloc option \<Rightarrow> sloc option \<Rightarrow> sloc option" where
  "range_loc (Some (s, e)) (Some (s', e')) = Some (s, e')"
| "range_loc a b = None"

section \<open>Parser state and the token interface\<close>

text \<open>
  Modelled from the spec: the macro expander (\<open>this.gullet\<close>) and its lexer are not among
  the sources. The spec describes them as a token-producing interface over the stream of
  already expanded tokens with an \<open>EOF\<close> sentinel at the end, a mode notification,
  group scopes (\<open>beginGroup\<close>/\<open>endGroup\<close>), a macro table with \<open>set\<close>, and catcode
  control on the lexer. The stream is the list of tokens still to come; the group scopes
  are counted; the catcode table starts with \<open>%\<close> as a comment character (14).
\<close>

record gullet =
  stream :: "token list"
  gullet_mode :: mode
  group_depth :: int
  macros :: "string \<rightharpoonup> string"
  catcodes :: "char \<rightharpoonup> nat"

text \<open>The mutable fields of a \<open>Parser\<close> object.\<close>

record pstate =
  pmode :: mode
  gullet :: gullet
  leftrightDepth :: int
  nextToken :: "token option"

text \<open>
  A method of the parser takes the state and returns a value or an error, and the state
  it leaves behind. An exception leaves the state as it was when it was thrown: nothing
  in the parser catches an exception or restores state on the way out.
\<close>

type_synonym 'a result = "(error + 'a) \<times> pstate"

type_synonym 'a M = "pstate \<Rightarrow> 'a result"

definition ret :: "'a \<Rightarrow> 'a M" where
  "ret x st = (Inr x, st)"

definition throw :: "error \<Rightarrow> 'a M" where
  "throw e st = (Inl e, st)"

text \<open>Sequencing: run \<open>m\<close>; on an error stop with it, else go on with \<open>f\<close>.\<close>

definition bnd_res :: "'a result \<Rightarrow> ('a \<Rightarrow> 'b M) \<Rightarrow> 'b result" where
  "bnd_res r f = (case r of (Inl e, st') \<Rightarrow> (Inl e, st') | (Inr a, st') \<Rightarrow> f a st')"

definition bnd :: "'a M \<Rightarrow> ('a \<Rightarrow> 'b M) \<Rightarrow> 'b M" where
  "bnd m f st = bnd_res (m st) f"

definition thn :: "unit M \<Rightarrow> 'b M \<Rightarrow> 'b M" where
  "thn m k = bnd m (\<lambda>u. k)"

definition whenM :: "bool \<Rightarrow> unit M \<Rightarrow> unit M" where
  "whenM b m = (if b then m else ret ())"

definition getMode :: "mode M" where
  "getMode st = (Inr (pmode st), st)"

text \<open>\<open>this.mode = m\<close>, the assignment alone.\<close>

definition setMode :: "mode \<Rightarrow> unit M" where
  "setMode m st = (Inr (), st\<lparr>pmode := m\<rparr>)"

definition switchMode :: "mode \<Rightarrow> unit M" where
  "switchMode newMode st =
     (Inr (), st\<lparr>pmode := newMode, gullet := (gullet st)\<lparr>gullet_mode := newMode\<rparr>\<rparr>)"

definition eofToken :: token where
  "eofToken = Token ''EOF'' None"

definition expandNextToken :: "gullet \<Rightarrow> token \<times> gullet" where
  "expandNextToken g =
     (case stream g of
        [] \<Rightarrow> (eofToken, g)
      | t # ts \<Rightarrow> (t, g\<lparr>stream := ts\<rparr>))"

text \<open>\<open>fetch\<close> and \<open>consume\<close> on the state alone (they cannot fail).\<close>

definition fetch_st :: "pstate \<Rightarrow> token \<times> pstate" where
  "fetch_st st =
     (case nextToken st of
        Some t \<Rightarrow> (t, st)
      | None \<Rightarrow>
          (let (t, g) = expandNextToken (gullet st)
           in (t, st\<lparr>gullet := g, nextToken := Some t\<rparr>)))"

definition consume_st :: "pstate \<Rightarrow> pstate" where
  "consume_st st = st\<lparr>nextToken := None\<rparr>"

definition fetch :: "token M" where
  "fetch st = (Inr (fst (fetch_st st)), snd (fetch_st st))"

definition consume :: "unit M" where
  "consume st = (Inr (), consume_st st)"

definition q :: string where
  "q = [CHR 0x27]"

definition expect :: "string \<Rightarrow> bool \<Rightarrow> unit M" where
  "expect text consumeIt =
     bnd fetch (\<lambda>t.
       if tok_text t \<noteq> text
       then throw (ParseError (''Expected '' @ q @ text @ q @ '', got '' @ q @ tok_text t @ q)
                     (Some t))
       else whenM consumeIt consume)"

definition beginGroup :: "unit M" where
  "beginGroup st = (Inr (), st\<lparr>gullet := (gullet st)\<lparr>group_depth := group_depth (gullet st) + 1\<rparr>\<rparr>)"

definition endGroup :: "unit M" where
  "endGroup st = (Inr (), st\<lparr>gullet := (gullet st)\<lparr>group_depth := group_depth (gullet st) - 1\<rparr>\<rparr>)"

definition setMacro :: "string \<Rightarrow> string \<Rightarrow> unit M" where
  "setMacro name expansion st =
     (Inr (), st\<lparr>gullet := (gullet st)\<lparr>macros := (macros (gullet st))(name \<mapsto> expansion)\<rparr>\<rparr>)"

definition setCatcode :: "char \<Rightarrow> nat \<Rightarrow> unit M" where
  "setCatcode c code st =
     (Inr (), st\<lparr>gullet := (gullet st)\<lparr>catcodes := (catcodes (gullet st))(c \<mapsto> code)\<rparr>\<rparr>)"

text \<open>
  The number of tokens a loop can still consume: the lookahead slot and the stream.
  Consuming a token that is not the \<open>EOF\<close> sentinel makes it smaller, which is why the
  loops that consume until a delimiter or \<open>EOF\<close> terminate.
\<close>

definition pending :: "pstate \<Rightarrow> nat" where
  "pending st = length (stream (gullet st)) + (case nextToken st of None \<Rightarrow> 0 | Some t \<Rightarrow> 1)"

lemma pending_consume:
  "fetch_st st = (t, st1) \<Longrightarrow> tok_text t \<noteq> ''EOF'' \<Longrightarrow> pending (consume_st st1) < pending st"
  by (auto simp: fetch_st_def consume_st_def pending_def expandNextToken_def eofToken_def
      split: option.splits list.splits)

text \<open>\<open>consumeSpaces\<close>: \<open>while (this.fetch().text === " ") this.consume()\<close>.\<close>

function consumeSpaces_st :: "pstate \<Rightarrow> pstate" where
  "consumeSpaces_st st =
     (let (t, st1) = fetch_st st
      in if tok_text t = '' '' then consumeSpaces_st (consume_st st1) else st1)"
  by pat_completeness auto
termination
  by (relation "measure pending") (auto dest!: sym [of "(a, b)" for a b] intro!: pending_consume)

declare consumeSpaces_st.simps [simp del]

definition consumeSpaces :: "unit M" where
  "consumeSpaces st = (Inr (), consumeSpaces_st st)"

section \<open>Settings, the function registry and the tables\<close>

text \<open>
  Modelled from the spec: \<open>Settings\<close> is not among the sources. The parser reads
  \<open>globalGroup\<close>, \<open>colorIsTextColor\<close>, \<open>throwOnError\<close>, \<open>strict\<close> (for its truth value),
  \<open>errorColor\<close>, and calls \<open>reportNonstrict(kind, message, token)\<close>, which may raise; the
  result \<open>Some e\<close> is the error it raises.
\<close>

record settings =
  globalGroup :: bool
  colorIsTextColor :: bool
  throwOnError :: bool
  strict :: bool
  errorColor :: string
  reportNonstrict :: "string \<Rightarrow> string \<Rightarrow> token \<Rightarrow> error option"

text \<open>
  The methods of the parser that call each other in a cycle, as a record of closures:
  what \<open>this\<close> offers to a method and to a function handler. The model bounds the depth
  of the calls through \<open>this\<close> (see \<open>Parser\<close> below).
\<close>

record parser =
  pParseExpression :: "bool \<Rightarrow> string option \<Rightarrow> node list M"
  pParseAtom :: "string option \<Rightarrow> node option M"
  pParseGroup :: "string \<Rightarrow> bool \<Rightarrow> int option \<Rightarrow> string option \<Rightarrow> mode option \<Rightarrow> bool \<Rightarrow> node option M"
  pParseFunction :: "string option \<Rightarrow> string option \<Rightarrow> int option \<Rightarrow> node option M"
  pParseGroupOfType :: "string \<Rightarrow> string option \<Rightarrow> bool \<Rightarrow> int option \<Rightarrow> bool \<Rightarrow> node option M"
  pCallFunction :: "string \<Rightarrow> node list \<Rightarrow> node option list \<Rightarrow> token option \<Rightarrow> string option \<Rightarrow> node M"
  pExpressionLoop :: "bool \<Rightarrow> string option \<Rightarrow> node list \<Rightarrow> node list M"
  pAtomLoop :: "node option \<Rightarrow> node option \<Rightarrow> node option \<Rightarrow> (node option \<times> node option \<times> node option) M"

text \<open>The \<open>FunctionContext\<close> a handler receives: \<open>{funcName, parser, token, breakOnTokenText}\<close>.\<close>

record fcontext =
  funcName :: string
  ctx_parser :: parser
  ctx_token :: "token option"
  breakOnTokenText :: "string option"

type_synonym handler = "fcontext \<Rightarrow> node list \<Rightarrow> node option list \<Rightarrow> node M"

text \<open>
  A \<open>FunctionSpec\<close>, the fields the parser reads. \<open>allowedInMath\<close> is false only when
  the registry says \<open>false\<close>; \<open>isInfix\<close> is the flag \<open>infix\<close>; a missing handler is
  \<open>None\<close>.
\<close>

record funcspec =
  numArgs :: nat
  numOptionalArgs :: nat
  argTypes :: "string list option"
  greediness :: int
  allowedInText :: bool
  allowedInMath :: bool
  isInfix :: bool
  handler :: "handler option"

text \<open>
  The read-only tables the parser imports, none of them among the sources; they are
  parameters of the model. \<open>symbols\<close> gives the group of a symbol.
\<close>

record env =
  functionTable :: "string \<rightharpoonup> funcspec"
  implicitCommands :: "string \<Rightarrow> bool"
  symbols :: "mode \<Rightarrow> string \<rightharpoonup> string"
  ATOMS :: "string \<Rightarrow> bool"
  extraLatin :: "string \<Rightarrow> bool"
  unicodeSymbols :: "char \<rightharpoonup> string"
  supportedCodepoint :: "nat \<Rightarrow> bool"
  validUnit :: "sizeval \<Rightarrow> bool"
  settings :: settings

definition liftE :: "error + 'a \<Rightarrow> 'a M" where
  "liftE r st = (case r of Inl e \<Rightarrow> (Inl e, st) | Inr a \<Rightarrow> (Inr a, st))"

definition report :: "env \<Rightarrow> string \<Rightarrow> string \<Rightarrow> token \<Rightarrow> unit M" where
  "report env kind msg tok =
     (case reportNonstrict (settings env) kind msg tok of
        Some e \<Rightarrow> throw e
      | None \<Rightarrow> ret ())"

section \<open>Regular expressions\<close>

text \<open>
  The regular expressions of the parser, as syntax trees, with a backtracking matcher
  that tries alternatives from the left and repeats greedily, as JavaScript does.
  \<open>Chr p\<close> is a character class, \<open>Star p\<close> its greedy repetition, \<open>Eol\<close> is \<open>$\<close>,
  \<open>Grp i r\<close> is the capture group \<open>i\<close>.
\<close>

datatype re = Chr "char \<Rightarrow> bool" | Star "char \<Rightarrow> bool" | Seq re re | Alt re re
  | Eps | Eol | Grp nat re

type_synonym caps = "nat \<Rightarrow> string option"

fun rmatch :: "re \<Rightarrow> string \<Rightarrow> caps \<Rightarrow> (string \<Rightarrow> caps \<Rightarrow> 'a option) \<Rightarrow> 'a option" where
  "rmatch (Chr p) [] cs k = None"
| "rmatch (Chr p) (c # s) cs k = (if p c then k s cs else None)"
| "rmatch (Star p) [] cs k = k [] cs"
| "rmatch (Star p) (c # s) cs k =
     (if p c then
        (case rmatch (Star p) s cs k of
           Some r \<Rightarrow> Some r
         | None \<Rightarrow> k (c # s) cs)
      else k (c # s) cs)"
| "rmatch (Seq a b) s cs k = rmatch a s cs (\<lambda>s' cs'. rmatch b s' cs' k)"
| "rmatch (Alt a b) s cs k =
     (case rmatch a s cs k of
        Some r \<Rightarrow> Some r
      | None \<Rightarrow> rmatch b s cs k)"
| "rmatch Eps s cs k = k s cs"
| "rmatch Eol s cs k = (if s = [] then k s cs else None)"
| "rmatch (Grp i a) s cs k =
     rmatch a s cs (\<lambda>s' cs'. k s' (cs'(i := Some (take (length s - length s') s))))"

text \<open>\<open>regex.test(s)\<close> for a regex that starts with \<open>^\<close>.\<close>

definition rtest :: "re \<Rightarrow> string \<Rightarrow> bool" where
  "rtest r s = (rmatch r s (\<lambda>i. None) (\<lambda>s' cs. Some ()) \<noteq> None)"

text \<open>\<open>regex.exec(s)\<close> for a regex without \<open>^\<close>: the leftmost match, its groups.\<close>

fun rexec :: "re \<Rightarrow> string \<Rightarrow> caps option" where
  "rexec r [] = rmatch r [] (\<lambda>i. None) (\<lambda>s' cs. Some cs)"
| "rexec r (c # s) =
     (case rmatch r (c # s) (\<lambda>i. None) (\<lambda>s' cs. Some cs) of
        Some cs \<Rightarrow> Some cs
      | None \<Rightarrow> rexec r s)"

definition ropt :: "re \<Rightarrow> re" where
  "ropt r = Alt r Eps"

definition rplus :: "(char \<Rightarrow> bool) \<Rightarrow> re" where
  "rplus p = Seq (Chr p) (Star p)"

definition lit :: "string \<Rightarrow> re" where
  "lit s = foldr (\<lambda>c r. Seq (Chr (\<lambda>x. x = c)) r) s Eps"

definition isDigit :: "char \<Rightarrow> bool" where
  "isDigit c \<longleftrightarrow> c \<in> set ''0123456789''"

definition isLower :: "char \<Rightarrow> bool" where
  "isLower c \<longleftrightarrow> c \<in> set ''abcdefghijklmnopqrstuvwxyz''"

definition isUpper :: "char \<Rightarrow> bool" where
  "isUpper c \<longleftrightarrow> c \<in> set ''ABCDEFGHIJKLMNOPQRSTUVWXYZ''"

definition isAlpha :: "char \<Rightarrow> bool" where
  "isAlpha c \<longleftrightarrow> isLower c \<or> isUpper c"

definition isHex :: "char \<Rightarrow> bool" where
  "isHex c \<longleftrightarrow> isDigit c \<or> c \<in> set ''abcdefABCDEF''"

definition isSpace :: "char \<Rightarrow> bool" where
  "isSpace c \<longleftrightarrow> c = CHR '' ''"

definition isSign :: "char \<Rightarrow> bool" where
  "isSign c \<longleftrightarrow> c = CHR ''-'' \<or> c = CHR ''+''"

definition isDot :: "char \<Rightarrow> bool" where
  "isDot c \<longleftrightarrow> c = CHR ''.''"

text \<open>\<open>/^(#[a-f0-9]{3}|#?[a-f0-9]{6}|[a-z]+)$/i\<close>\<close>

definition colorRegex :: re where
  "colorRegex =
     Seq (Alt (Seq (lit ''#'') (Seq (Chr isHex) (Seq (Chr isHex) (Chr isHex))))
         (Alt (Seq (ropt (lit ''#''))
                 (Seq (Chr isHex) (Seq (Chr isHex) (Seq (Chr isHex)
                 (Seq (Chr isHex) (Seq (Chr isHex) (Chr isHex)))))))
              (rplus isAlpha)))
         Eol"

text \<open>\<open>/^[0-9a-f]{6}$/i\<close>\<close>

definition hex6Regex :: re where
  "hex6Regex =
     Seq (Chr isHex) (Seq (Chr isHex) (Seq (Chr isHex)
     (Seq (Chr isHex) (Seq (Chr isHex) (Seq (Chr isHex) Eol)))))"

text \<open>\<open>/^[-+]? *(?:$|\d+|\d+\.\d*|\.\d*) *[a-z]{0,2} *$/\<close>\<close>

definition sizePrefixRegex :: re where
  "sizePrefixRegex =
     Seq (ropt (Chr isSign)) (Seq (Star isSpace)
     (Seq (Alt Eol (Alt (rplus isDigit)
             (Alt (Seq (rplus isDigit) (Seq (Chr isDot) (Star isDigit)))
                  (Seq (Chr isDot) (Star isDigit)))))
     (Seq (Star isSpace)
     (Seq (ropt (Seq (Chr isLower) (ropt (Chr isLower))))
     (Seq (Star isSpace) Eol)))))"

text \<open>\<open>/([-+]?) *(\d+(?:\.\d*)?|\.\d+) *([a-z]{2})/\<close>\<close>

definition sizeRegex :: re where
  "sizeRegex =
     Seq (Grp 1 (ropt (Chr isSign))) (Seq (Star isSpace)
     (Seq (Grp 2 (Alt (Seq (rplus isDigit) (ropt (Seq (Chr isDot) (Star isDigit))))
                      (Seq (Chr isDot) (rplus isDigit))))
     (Seq (Star isSpace)
     (Grp 3 (Seq (Chr isLower) (Chr isLower))))))"

text \<open>\<open>/^\\verb[^a-zA-Z]/\<close>\<close>

definition verbRegex :: re where
  "verbRegex = Seq (lit (bs # ''verb'')) (Chr (\<lambda>c. \<not> isAlpha c))"

text \<open>
  The number a decimal numeral denotes (the cast \<open>+(sign + magnitude)\<close> on a match of
  \<open>sizeRegex\<close>: an optional sign, digits, an optional point and digits). The model keeps the
  exact rational; JavaScript rounds it to a double.
\<close>

definition digitVal :: "char \<Rightarrow> nat" where
  "digitVal c = of_char c - 48"

definition digitsVal :: "string \<Rightarrow> nat" where
  "digitsVal ds = foldl (\<lambda>n c. 10 * n + digitVal c) 0 ds"

definition magnitude :: "string \<Rightarrow> rat" where
  "magnitude s =
     (let ip = takeWhile isDigit s; fp = takeWhile isDigit (drop 1 (dropWhile isDigit s))
      in of_nat (digitsVal ip) + of_nat (digitsVal fp) / 10 ^ length fp)"

definition toNumber :: "string \<Rightarrow> rat" where
  "toNumber s =
     (case s of
        [] \<Rightarrow> 0
      | c # r \<Rightarrow> if c = CHR ''-'' then - magnitude r
                 else if c = CHR ''+'' then magnitude r else magnitude s)"

section \<open>String, regex, color, size and URL groups\<close>

text \<open>\<open>first.range(last, text)\<close>: the composite token.\<close>

definition tok_range :: "token \<Rightarrow> token \<Rightarrow> string \<Rightarrow> token" where
  "tok_range firstTok lastTok str = Token str (range_loc (tok_loc firstTok) (tok_loc lastTok))"

text \<open>
  The \<open>while\<close> loop of \<open>parseStringGroup\<close>; \<open>gb\<close> and \<open>ge\<close> are \<open>groupBegin\<close> and \<open>groupEnd\<close>.
  The result is \<open>lastToken\<close> and \<open>str\<close>.
\<close>

function stringLoop ::
  "string \<Rightarrow> string \<Rightarrow> bool \<Rightarrow> string \<Rightarrow> token \<Rightarrow> token \<Rightarrow> string \<Rightarrow> int \<Rightarrow> (token \<times> string) M"
where
  "stringLoop gb ge raw modeName firstToken lastToken str nested st =
     (let (nextTok, st1) = fetch_st st
      in if tok_text nextTok \<noteq> ge \<or> (raw \<and> nested > 0) then
           if tok_text nextTok = ''EOF'' then
             (Inl (ParseError (''Unexpected end of input in '' @ modeName)
                     (Some (tok_range firstToken lastToken str))), st1)
           else
             stringLoop gb ge raw modeName firstToken nextTok (str @ tok_text nextTok)
               (if tok_text nextTok = gb then nested + 1
                else if tok_text nextTok = ge then nested - 1 else nested)
               (consume_st st1)
         else (Inr (lastToken, str), st1))"
  by pat_completeness auto
termination
  by (relation "measure (\<lambda>(gb, ge, raw, modeName, firstToken, lastToken, str, nested, st). pending st)")
    (auto dest!: sym [of "(a, b)" for a b] intro!: pending_consume)

declare stringLoop.simps [simp del]

definition parseStringGroup :: "string \<Rightarrow> bool \<Rightarrow> bool \<Rightarrow> token option M" where
  "parseStringGroup modeName optional raw =
     bnd fetch (\<lambda>beginToken.
       if tok_text beginToken \<noteq> (if optional then ''['' else ''{'') \<and> optional
       then ret None
       else if tok_text beginToken \<noteq> (if optional then ''['' else ''{'') \<and> raw \<and>
               tok_text beginToken \<noteq> ''EOF'' \<and>
               list_ex (\<lambda>c. c \<notin> set ''{}[]'') (tok_text beginToken)
       then thn consume (ret (Some beginToken))
       else
         bnd getMode (\<lambda>outerMode.
         thn (setMode TextMode)
         (thn (expect (if optional then ''['' else ''{'') True)
         (bnd fetch (\<lambda>firstToken.
          bnd (stringLoop (if optional then ''['' else ''{'') (if optional then '']'' else ''}'')
                 raw modeName firstToken firstToken [] 0) (\<lambda>(lastToken, str).
          thn (expect (if optional then '']'' else ''}'') True)
          (thn (setMode outerMode)
          (ret (Some (tok_range firstToken lastToken str))))))))))"

text \<open>The \<open>while\<close> loop of \<open>parseRegexGroup\<close>.\<close>

function regexLoop :: "(string \<Rightarrow> bool) \<Rightarrow> token \<Rightarrow> string \<Rightarrow> (token \<times> string) M" where
  "regexLoop regex lastToken str st =
     (let (nextTok, st1) = fetch_st st
      in if tok_text nextTok \<noteq> ''EOF'' \<and> regex (str @ tok_text nextTok)
         then regexLoop regex nextTok (str @ tok_text nextTok) (consume_st st1)
         else (Inr (lastToken, str), st1))"
  by pat_completeness auto
termination
  by (relation "measure (\<lambda>(regex, lastToken, str, st). pending st)")
    (auto dest!: sym [of "(a, b)" for a b] intro!: pending_consume)

declare regexLoop.simps [simp del]

definition parseRegexGroup :: "(string \<Rightarrow> bool) \<Rightarrow> string \<Rightarrow> token M" where
  "parseRegexGroup regex modeName =
     bnd getMode (\<lambda>outerMode.
     thn (setMode TextMode)
     (bnd fetch (\<lambda>firstToken.
      bnd (regexLoop regex firstToken []) (\<lambda>(lastToken, str).
        if str = []
        then throw (ParseError (''Invalid '' @ modeName @ '': '' @ q @ tok_text firstToken @ q)
                      (Some firstToken))
        else thn (setMode outerMode) (ret (tok_range firstToken lastToken str))))))"

definition parseColorGroup :: "bool \<Rightarrow> node option M" where
  "parseColorGroup optional =
     bnd (parseStringGroup ''color'' optional False) (\<lambda>res.
       case res of
         None \<Rightarrow> ret None
       | Some tok \<Rightarrow>
           if \<not> rtest colorRegex (tok_text tok)
           then throw (ParseError (''Invalid color: '' @ q @ tok_text tok @ q) (Some tok))
           else bnd getMode (\<lambda>m.
             ret (Some (ColorToken m
               (if rtest hex6Regex (tok_text tok) then ''#'' @ tok_text tok
                else tok_text tok)))))"

text \<open>
  The part of \<open>parseSizeGroup\<close> after the group is read: \<open>res\<close> is the token, with its
  text already replaced by \<open>0pt\<close> when it was blank.
\<close>

definition sizeOfToken :: "env \<Rightarrow> token \<Rightarrow> bool \<Rightarrow> node option M" where
  "sizeOfToken env res isBlank =
     (case rexec sizeRegex (tok_text res) of
        None \<Rightarrow> throw (ParseError (''Invalid size: '' @ q @ tok_text res @ q) (Some res))
      | Some m \<Rightarrow>
          (case (m 1, m 2, m 3) of
             (Some sign, Some mag, Some u) \<Rightarrow>
               if \<not> validUnit env (SizeVal (toNumber (sign @ mag)) u)
               then throw (ParseError (''Invalid unit: '' @ q @ u @ q) (Some res))
               else bnd getMode (\<lambda>md.
                 ret (Some (Size md (SizeVal (toNumber (sign @ mag)) u) isBlank)))
           | other \<Rightarrow> throw (TypeError ''capture group missing'')))"

definition parseSizeGroup :: "env \<Rightarrow> bool \<Rightarrow> node option M" where
  "parseSizeGroup env optional =
     bnd (if optional then parseStringGroup ''size'' optional False
          else bnd fetch (\<lambda>t.
            if tok_text t \<noteq> ''{''
            then bnd (parseRegexGroup (rtest sizePrefixRegex) ''size'') (\<lambda>r. ret (Some r))
            else parseStringGroup ''size'' optional False)) (\<lambda>res.
       case res of
         None \<Rightarrow> ret None
       | Some tok \<Rightarrow>
           if \<not> optional \<and> length (tok_text tok) = 0
           then sizeOfToken env (Token ''0pt'' (tok_loc tok)) True
           else sizeOfToken env tok False)"

text \<open>\<open>text.replace(/\\([#$%&~_^{}])/g, '$1')\<close>\<close>

fun unescapeUrl :: "string \<Rightarrow> string" where
  "unescapeUrl (c # d # rest) =
     (if c = bs \<and> d \<in> set ''#$%&~_^{}'' then d # unescapeUrl rest
      else c # unescapeUrl (d # rest))"
| "unescapeUrl s = s"

definition parseUrlGroup :: "bool \<Rightarrow> bool \<Rightarrow> node option M" where
  "parseUrlGroup optional consumeSp =
     thn (setCatcode CHR ''%'' 13)
     (bnd (parseStringGroup ''url'' optional True) (\<lambda>res.
      thn (setCatcode CHR ''%'' 14)
      (case res of
         None \<Rightarrow> ret None
       | Some tok \<Rightarrow> bnd getMode (\<lambda>m. ret (Some (Url m (unescapeUrl (tok_text tok))))))))"

section \<open>Symbols\<close>

text \<open>
  A JavaScript string is a sequence of 16-bit code units; a \<^typ>\<open>string\<close> is a sequence of
  8-bit characters, so the model covers the token texts whose code units are below 256.
  The combining marks U+0300 to U+036F lie outside: on every text of the model
  \<open>combiningDiacriticalMarksEndRegex\<close> finds no match, \<open>match\<close> is \<open>null\<close>, and the two blocks
  of \<open>parseSymbol\<close> guarded by \<open>if (match)\<close> (stripping the marks, folding them into
  \<open>accent\<close> nodes) are not reached. They are left out of \<open>parseSymbol\<close> below.
\<close>

function show_nat :: "nat \<Rightarrow> string" where
  "show_nat n =
     (if n < 10 then [char_of (48 + n)]
      else show_nat (n div 10) @ [char_of (48 + n mod 10)])"
  by pat_completeness auto
termination
  by (relation "measure id") auto

declare show_nat.simps [simp del]

definition dq :: string where
  "dq = [CHR 0x22]"

text \<open>\<open>text[0]\<close> in a template string.\<close>

definition firstChar :: "string \<Rightarrow> string" where
  "firstChar s = (case s of [] \<Rightarrow> ''undefined'' | c # r \<Rightarrow> [c])"

definition verbMessage :: string where
  "verbMessage =
     bs # ''verb assertion failed --'' @ [CHR 0x0A] @ replicate 20 CHR '' '' @
     ''please report what input caused this bug''"

text \<open>The \<open>\verb\<close> branch of \<open>parseSymbol\<close>.\<close>

definition parseVerb :: "string \<Rightarrow> node option M" where
  "parseVerb text =
     thn consume
       (let star = (take 1 (drop 5 text) = ''*'');
            arg = (if star then drop 6 text else drop 5 text)
        in if length arg < 2 \<or> take 1 arg \<noteq> drop (length arg - 1) arg
           then throw (ParseError verbMessage None)
           else ret (Some (Verb TextMode (take (length arg - 2) (drop 1 arg)) star)))"

text \<open>\<open>First expand any accented base symbol according to unicodeSymbols.\<close>\<close>

definition expandUnicodeSymbol :: "env \<Rightarrow> token \<Rightarrow> string \<Rightarrow> string M" where
  "expandUnicodeSymbol env nucleus text =
     (case text of
        [] \<Rightarrow> ret text
      | c # rest \<Rightarrow>
          (case unicodeSymbols env c of
             None \<Rightarrow> ret text
           | Some expansion \<Rightarrow>
               bnd getMode (\<lambda>m.
                 if symbols env m [c] \<noteq> None then ret text
                 else
                   thn (whenM (strict (settings env) \<and> m = MathMode)
                          (report env ''unicodeTextInMathMode''
                             (''Accented Unicode text character '' @ dq @ [c] @ dq @
                              '' used in math mode'') nucleus))
                     (ret (expansion @ rest)))))"

definition parseSymbol :: "env \<Rightarrow> node option M" where
  "parseSymbol env =
     bnd fetch (\<lambda>nucleus.
       if rtest verbRegex (tok_text nucleus) then parseVerb (tok_text nucleus)
       else
         bnd (expandUnicodeSymbol env nucleus (tok_text nucleus)) (\<lambda>text.
         bnd getMode (\<lambda>m.
           case symbols env m text of
             Some grp \<Rightarrow>
               thn (whenM (strict (settings env) \<and> m = MathMode \<and> extraLatin env text)
                      (report env ''unicodeTextInMathMode''
                         (''Latin-1/Unicode text character '' @ dq @ firstChar text @ dq @
                          '' used in math mode'') nucleus))
              (thn consume
                 (ret (Some (if ATOMS env grp then Atom m grp (tok_loc nucleus) text
                             else Symbol grp m (tok_loc nucleus) text))))
           | None \<Rightarrow>
               (case text of
                  [] \<Rightarrow> ret None
                | c # rest \<Rightarrow>
                    if (of_char c :: nat) \<ge> 128 then
                      thn (whenM (strict (settings env))
                             (if \<not> supportedCodepoint env (of_char c)
                              then report env ''unknownSymbol''
                                     (''Unrecognized Unicode character '' @ dq @ [c] @ dq @
                                      '' ('' @ show_nat (of_char c) @ '')'') nucleus
                              else whenM (m = MathMode)
                                     (report env ''unicodeTextInMathMode''
                                        (''Unicode text character '' @ dq @ [c] @ dq @
                                         '' used in math mode'') nucleus)))
                     (thn consume
                        (ret (Some (Symbol ''textord'' TextMode (tok_loc nucleus) text))))
                    else ret None))))"

section \<open>Unsupported commands\<close>

definition formatUnsupportedCmd :: "env \<Rightarrow> string \<Rightarrow> node M" where
  "formatUnsupportedCmd env text =
     bnd getMode (\<lambda>m.
       ret (Color m (errorColor (settings env))
              [TextNode m (map (\<lambda>c. Symbol ''textord'' TextMode None [c]) text)]))"

section \<open>Ligatures\<close>

text \<open>
  \<open>Array.prototype.splice(i, k, x)\<close>: replace \<open>k\<close> elements from index \<open>i\<close> by \<open>x\<close>.
\<close>

definition splice :: "node list \<Rightarrow> nat \<Rightarrow> nat \<Rightarrow> node \<Rightarrow> node list" where
  "splice grp i k x = take i grp @ x # drop (i + k) grp"

text \<open>\<open>group[k].text\<close>: reading \<open>text\<close> of a missing element is a \<open>TypeError\<close>.\<close>

definition text_at :: "node list \<Rightarrow> nat \<Rightarrow> error + string option" where
  "text_at grp k =
     (if k < length grp then Inr (node_text (grp ! k))
      else Inl (TypeError ''Cannot read property text of undefined''))"

definition ligature :: "node \<Rightarrow> node \<Rightarrow> string \<Rightarrow> node" where
  "ligature a b t = Symbol ''textord'' TextMode (range_loc (node_loc a) (node_loc b)) t"

text \<open>
  The first \<open>if\<close> of the loop body of \<open>formLigatures\<close>, at index \<open>i\<close> with element \<open>a\<close>
  and \<open>v = a.text\<close>: dashes. The result is the new group and the new \<open>n\<close>.
\<close>

definition dashStep :: "nat \<Rightarrow> int \<Rightarrow> node list \<Rightarrow> node \<Rightarrow> error + node list \<times> int" where
  "dashStep i n grp a =
     (if node_text a = Some ''-'' then
        (case text_at grp (i + 1) of
           Inl e \<Rightarrow> Inl e
         | Inr t1 \<Rightarrow>
             if t1 = Some ''-'' then
               (if int (i + 1) < n then
                  (case text_at grp (i + 2) of
                     Inl e \<Rightarrow> Inl e
                   | Inr t2 \<Rightarrow>
                       if t2 = Some ''-''
                       then Inr (splice grp i 3 (ligature a (grp ! (i + 2)) ''---''), n - 2)
                       else Inr (splice grp i 2 (ligature a (grp ! (i + 1)) ''--''), n - 1))
                else Inr (splice grp i 2 (ligature a (grp ! (i + 1)) ''--''), n - 1))
             else Inr (grp, n))
      else Inr (grp, n))"

text \<open>The second \<open>if\<close>: quotes. \<open>v\<close> is still the text read before the first \<open>if\<close>.\<close>

definition quoteStep :: "nat \<Rightarrow> int \<Rightarrow> node list \<Rightarrow> node \<Rightarrow> error + node list \<times> int" where
  "quoteStep i n grp a =
     (case node_text a of
        None \<Rightarrow> Inr (grp, n)
      | Some v \<Rightarrow>
          if v = [CHR 0x27] \<or> v = [CHR 0x60] then
            (case text_at grp (i + 1) of
               Inl e \<Rightarrow> Inl e
             | Inr t1 \<Rightarrow>
                 if t1 = Some v
                 then Inr (splice grp i 2 (ligature a (grp ! (i + 1)) (v @ v)), n - 1)
                 else Inr (grp, n))
          else Inr (grp, n))"

definition ligStep :: "nat \<Rightarrow> int \<Rightarrow> node list \<Rightarrow> error + node list \<times> int" where
  "ligStep i n grp =
     (if i < length grp then
        (case dashStep i n grp (grp ! i) of
           Inl e \<Rightarrow> Inl e
         | Inr (grp1, n1) \<Rightarrow> quoteStep i n1 grp1 (grp ! i))
      else Inl (TypeError ''Cannot read property text of undefined''))"

lemma dashStep_le: "dashStep i n grp a = Inr (grp', n') \<Longrightarrow> n' \<le> n"
  by (auto simp: dashStep_def split: if_splits sum.splits)

lemma quoteStep_le: "quoteStep i n grp a = Inr (grp', n') \<Longrightarrow> n' \<le> n"
  by (auto simp: quoteStep_def split: if_splits sum.splits option.splits)

lemma ligStep_le: "ligStep i n grp = Inr (grp', n') \<Longrightarrow> n' \<le> n"
  by (auto simp: ligStep_def split: if_splits sum.splits dest!: dashStep_le quoteStep_le)

text \<open>The loop \<open>for (let i = 0; i < n; ++i)\<close> of \<open>formLigatures\<close>.\<close>

function formLigatures_loop :: "nat \<Rightarrow> int \<Rightarrow> node list \<Rightarrow> error + node list" where
  "formLigatures_loop i n grp =
     (if int i < n then
        (case ligStep i n grp of
           Inl e \<Rightarrow> Inl e
         | Inr (grp', n') \<Rightarrow> formLigatures_loop (i + 1) n' grp')
      else Inr grp)"
  by pat_completeness auto
termination
  by (relation "measure (\<lambda>(i, n, grp). nat (n - int i))") (auto dest!: ligStep_le)

declare formLigatures_loop.simps [simp del]

definition formLigatures :: "node list \<Rightarrow> error + node list" where
  "formLigatures grp = formLigatures_loop 0 (int (length grp) - 1) grp"


section \<open>Functions and infix operators\<close>

definition callFunction ::
  "parser \<Rightarrow> env \<Rightarrow> string \<Rightarrow> node list \<Rightarrow> node option list \<Rightarrow> token option \<Rightarrow> string option \<Rightarrow> node M"
where
  "callFunction P env name args optArgs token breakOn =
     (case functionTable env name of
        None \<Rightarrow> throw (ParseError (''No function handler for '' @ name) None)
      | Some func \<Rightarrow>
          (case handler func of
             None \<Rightarrow> throw (ParseError (''No function handler for '' @ name) None)
           | Some h \<Rightarrow>
               h \<lparr>funcName = name, ctx_parser = P, ctx_token = token,
                  breakOnTokenText = breakOn\<rparr> args optArgs))"

text \<open>The properties \<open>replaceWith\<close> and \<open>token\<close> of a node.\<close>

fun node_replaceWith :: "node \<Rightarrow> string option" where
  "node_replaceWith (Infix m r t) = Some r"
| "node_replaceWith n = None"

fun node_token :: "node \<Rightarrow> token option" where
  "node_token (Infix m r t) = t"
| "node_token n = None"

text \<open>
  The \<open>for\<close> loop of \<open>handleInfixNodes\<close> over the elements from index \<open>i\<close> on; the result
  is \<open>overIndex\<close> and \<open>funcName\<close>.
\<close>

fun infixScan :: "node list \<Rightarrow> nat \<Rightarrow> int \<Rightarrow> string option \<Rightarrow> error + int \<times> string option" where
  "infixScan [] i overIndex fName = Inr (overIndex, fName)"
| "infixScan (x # xs) i overIndex fName =
     (if node_type x = ''infix'' then
        (if overIndex \<noteq> - 1
         then Inl (ParseError ''only one infix operator per group'' (node_token x))
         else infixScan xs (i + 1) (int i) (node_replaceWith x))
      else infixScan xs (i + 1) overIndex fName)"

text \<open>A side of the infix operator: reused when it is a single \<open>ordgroup\<close>, else wrapped.\<close>

definition infixSide :: "mode \<Rightarrow> node list \<Rightarrow> node" where
  "infixSide m side =
     (if length side = 1 \<and> node_type (side ! 0) = ''ordgroup'' then side ! 0
      else OrdGroup m None side False)"

definition abovefrac :: string where
  "abovefrac = bs # bs # ''abovefrac''"

definition handleInfixNodes :: "parser \<Rightarrow> env \<Rightarrow> node list \<Rightarrow> node list M" where
  "handleInfixNodes P env body =
     bnd (liftE (infixScan body 0 (- 1) None)) (\<lambda>(overIndex, fName).
       case fName of
         None \<Rightarrow> ret body
       | Some f \<Rightarrow>
           if overIndex \<noteq> - 1 \<and> f \<noteq> [] then
             bnd getMode (\<lambda>m.
             bnd (if f = abovefrac
                  then callFunction P env f
                         [infixSide m (take (nat overIndex) body), body ! nat overIndex,
                          infixSide m (drop (nat overIndex + 1) body)] [] None None
                  else callFunction P env f
                         [infixSide m (take (nat overIndex) body),
                          infixSide m (drop (nat overIndex + 1) body)] [] None None)
               (\<lambda>n. ret [n]))
           else ret body)"

section \<open>Atoms, groups, arguments and expressions\<close>

definition handleSupSubscript :: "parser \<Rightarrow> string \<Rightarrow> node M" where
  "handleSupSubscript P name =
     bnd fetch (\<lambda>symbolToken.
     thn consume
     (bnd (pParseGroup P name False (Some 1) None None True) (\<lambda>grp.
        case grp of
          None \<Rightarrow> throw (ParseError (''Expected group after '' @ q @ tok_text symbolToken @ q)
                           (Some symbolToken))
        | Some g \<Rightarrow> ret g)))"

text \<open>
  \<open>\limits\<close> and \<open>\nolimits\<close>: the base with \<open>limits\<close> set, or \<open>None\<close> when the base is not
  an operator.
\<close>

fun limitBase :: "node option \<Rightarrow> bool \<Rightarrow> node option" where
  "limitBase (Some (Op m l a n)) limits = Some (Op m (Some limits) True n)"
| "limitBase (Some (OperatorName m l a b)) limits =
     (if a then Some (OperatorName m (Some limits) a b) else None)"
| "limitBase base limits = None"

text \<open>The inner loop of the prime branch: \<open>while (this.fetch().text === "'")\<close>.\<close>

function collectPrimes :: "node \<Rightarrow> node list \<Rightarrow> node list M" where
  "collectPrimes prime primes st =
     (let (t, st1) = fetch_st st
      in if tok_text t = q then collectPrimes prime (primes @ [prime]) (consume_st st1)
         else (Inr primes, st1))"
  by pat_completeness auto
termination
  by (relation "measure (\<lambda>(prime, primes, st). pending st)")
    (auto simp: q_def dest!: sym [of "(a, b)" for a b] intro!: pending_consume)

declare collectPrimes.simps [simp del]

text \<open>The prime branch of the loop of \<open>parseAtom\<close>; the result is the new superscript.\<close>

definition parsePrimes :: "parser \<Rightarrow> node M" where
  "parsePrimes P =
     bnd getMode (\<lambda>m.
     thn consume
     (bnd (collectPrimes (Symbol ''textord'' m None (bs # ''prime''))
             [Symbol ''textord'' m None (bs # ''prime'')]) (\<lambda>primes.
      bnd fetch (\<lambda>t.
      bnd (if tok_text t = ''^''
           then bnd (handleSupSubscript P ''superscript'') (\<lambda>g. ret (primes @ [g]))
           else ret primes) (\<lambda>primes'.
      bnd getMode (\<lambda>m'. ret (OrdGroup m' None primes' False)))))))"

text \<open>
  One round of the \<open>while (true)\<close> loop of \<open>parseAtom\<close>, with the base, the superscript
  and the subscript so far; the next round is a call through \<open>this\<close>.
\<close>

definition atomLoop ::
  "parser \<Rightarrow> env \<Rightarrow> node option \<Rightarrow> node option \<Rightarrow> node option \<Rightarrow> (node option \<times> node option \<times> node option) M"
where
  "atomLoop P env base superscript subscript =
     thn consumeSpaces
     (bnd fetch (\<lambda>lex.
        if tok_text lex = bs # ''limits'' \<or> tok_text lex = bs # ''nolimits'' then
          (case limitBase base (tok_text lex = bs # ''limits'') of
             None \<Rightarrow> throw (ParseError ''Limit controls must follow a math operator'' (Some lex))
           | Some base' \<Rightarrow> thn consume (pAtomLoop P (Some base') superscript subscript))
        else if tok_text lex = ''^'' then
          (if superscript \<noteq> None then throw (ParseError ''Double superscript'' (Some lex))
           else bnd (handleSupSubscript P ''superscript'') (\<lambda>g.
                  pAtomLoop P base (Some g) subscript))
        else if tok_text lex = ''_'' then
          (if subscript \<noteq> None then throw (ParseError ''Double subscript'' (Some lex))
           else bnd (handleSupSubscript P ''subscript'') (\<lambda>g.
                  pAtomLoop P base superscript (Some g)))
        else if tok_text lex = q then
          (if superscript \<noteq> None then throw (ParseError ''Double superscript'' (Some lex))
           else bnd (parsePrimes P) (\<lambda>g. pAtomLoop P base (Some g) subscript))
        else ret (base, superscript, subscript)))"

definition parseAtom :: "parser \<Rightarrow> env \<Rightarrow> string option \<Rightarrow> node option M" where
  "parseAtom P env breakOn =
     bnd (pParseGroup P ''atom'' False None breakOn None False) (\<lambda>base.
     bnd getMode (\<lambda>m.
       if m = TextMode then ret base
       else
         bnd (atomLoop P env base None None) (\<lambda>(base', superscript, subscript).
           if superscript \<noteq> None \<or> subscript \<noteq> None
           then bnd getMode (\<lambda>m'. ret (Some (SupSub m' base' superscript subscript)))
           else ret base')))"

text \<open>\<open>funcData.argTypes && funcData.argTypes[i]\<close> and \<open>i < funcData.numOptionalArgs\<close>.\<close>

definition argTypeAt :: "funcspec \<Rightarrow> nat \<Rightarrow> string option" where
  "argTypeAt funcData i =
     (case argTypes funcData of
        None \<Rightarrow> None
      | Some ts \<Rightarrow> if i < length ts then Some (ts ! i) else None)"

definition isOptionalAt :: "funcspec \<Rightarrow> nat \<Rightarrow> bool" where
  "isOptionalAt funcData i \<longleftrightarrow> i < numOptionalArgs funcData"

text \<open>The property \<open>mode\<close> of a node.\<close>

fun node_mode :: "node \<Rightarrow> mode" where
  "node_mode (Atom m f l t) = m"
| "node_mode (Symbol g m l t) = m"
| "node_mode (OrdGroup m l b s) = m"
| "node_mode (SupSub m b u d) = m"
| "node_mode (Infix m r t) = m"
| "node_mode (Accent m l lab st sh b) = m"
| "node_mode (Color m c b) = m"
| "node_mode (ColorToken m c) = m"
| "node_mode (Size m v b) = m"
| "node_mode (Url m u) = m"
| "node_mode (Raw m s) = m"
| "node_mode (Styling m s b) = m"
| "node_mode (Verb m b s) = m"
| "node_mode (TextNode m b) = m"
| "node_mode (Op m l a n) = m"
| "node_mode (OperatorName m l a b) = m"
| "node_mode (ZInput m i w) = m"
| "node_mode (Other ty m b) = m"

definition parseGroupOfType ::
  "parser \<Rightarrow> env \<Rightarrow> string \<Rightarrow> string option \<Rightarrow> bool \<Rightarrow> int option \<Rightarrow> bool \<Rightarrow> node option M"
where
  "parseGroupOfType P env name type optional greed consumeSp =
     (if type = Some ''color'' then
        thn (whenM consumeSp consumeSpaces) (parseColorGroup optional)
      else if type = Some ''size'' then
        thn (whenM consumeSp consumeSpaces) (parseSizeGroup env optional)
      else if type = Some ''url'' then parseUrlGroup optional consumeSp
      else if type = Some ''math'' then
        pParseGroup P name optional greed None (Some MathMode) consumeSp
      else if type = Some ''text'' then
        pParseGroup P name optional greed None (Some TextMode) consumeSp
      else if type = Some ''hbox'' then
        bnd (pParseGroup P name optional greed None (Some TextMode) consumeSp) (\<lambda>grp.
          case grp of
            None \<Rightarrow> ret None
          | Some g \<Rightarrow> ret (Some (Styling (node_mode g) ''text'' [g])))
      else if type = Some ''raw'' then
        thn (whenM consumeSp consumeSpaces)
        (bnd (if optional then bnd fetch (\<lambda>t. ret (tok_text t = ''{'')) else ret False)
           (\<lambda>brace.
             if brace then ret None
             else bnd (parseStringGroup ''raw'' optional True) (\<lambda>token.
               case token of
                 Some t \<Rightarrow> ret (Some (Raw TextMode (tok_text t)))
               | None \<Rightarrow> bnd fetch (\<lambda>t. throw (ParseError ''Expected raw group'' (Some t))))))
      else if type = Some ''original'' \<or> type = None then
        pParseGroup P name optional greed None None consumeSp
      else bnd fetch (\<lambda>t. throw (ParseError (''Unknown group type as '' @ name) (Some t))))"

text \<open>
  The \<open>for\<close> loop of \<open>parseArguments\<close>: \<open>k\<close> rounds are left, \<open>i\<close> is the index.
\<close>

fun argumentsLoop ::
  "parser \<Rightarrow> env \<Rightarrow> string \<Rightarrow> funcspec \<Rightarrow> nat \<Rightarrow> nat \<Rightarrow> node list \<Rightarrow> node option list \<Rightarrow> (node list \<times> node option list) M"
where
  "argumentsLoop P env func funcData 0 i args optArgs = ret (args, optArgs)"
| "argumentsLoop P env func funcData (Suc k) i args optArgs =
     bnd getMode (\<lambda>m.
     bnd (parseGroupOfType P env (''argument to '' @ q @ func @ q) (argTypeAt funcData i)
            (isOptionalAt funcData i) (Some (greediness funcData))
            ((i > 0 \<and> \<not> isOptionalAt funcData i) \<or>
             (i = 0 \<and> \<not> isOptionalAt funcData i \<and> m = MathMode))) (\<lambda>arg.
       case arg of
         None \<Rightarrow>
           if isOptionalAt funcData i
           then argumentsLoop P env func funcData k (i + 1) args (optArgs @ [None])
           else bnd fetch (\<lambda>t.
                  throw (ParseError (''Expected group after '' @ q @ func @ q) (Some t)))
       | Some a \<Rightarrow>
           if isOptionalAt funcData i
           then argumentsLoop P env func funcData k (i + 1) args (optArgs @ [Some a])
           else argumentsLoop P env func funcData k (i + 1) (args @ [a]) optArgs))"

definition parseArguments ::
  "parser \<Rightarrow> env \<Rightarrow> string \<Rightarrow> funcspec \<Rightarrow> (node list \<times> node option list) M"
where
  "parseArguments P env func funcData =
     (if numArgs funcData + numOptionalArgs funcData = 0 then ret ([], [])
      else argumentsLoop P env func funcData (numArgs funcData + numOptionalArgs funcData)
             0 [] [])"

definition parseFunction ::
  "parser \<Rightarrow> env \<Rightarrow> string option \<Rightarrow> string option \<Rightarrow> int option \<Rightarrow> node option M"
where
  "parseFunction P env breakOn name greed =
     bnd fetch (\<lambda>token.
       case functionTable env (tok_text token) of
         None \<Rightarrow> ret None
       | Some funcData \<Rightarrow>
           thn consume
           (bnd getMode (\<lambda>m.
              if (case greed of None \<Rightarrow> False | Some g \<Rightarrow> greediness funcData \<le> g) then
                throw (ParseError
                  (''Got function '' @ q @ tok_text token @ q @ '' with no arguments'' @
                   (case name of None \<Rightarrow> [] | Some n \<Rightarrow> if n = [] then [] else '' as '' @ n))
                  (Some token))
              else if m = TextMode \<and> \<not> allowedInText funcData then
                throw (ParseError
                  (''Can'' @ q @ ''t use function '' @ q @ tok_text token @ q @ '' in text mode'')
                  (Some token))
              else if m = MathMode \<and> \<not> allowedInMath funcData then
                throw (ParseError
                  (''Can'' @ q @ ''t use function '' @ q @ tok_text token @ q @ '' in math mode'')
                  (Some token))
              else
                bnd (parseArguments P env (tok_text token) funcData) (\<lambda>(args, optArgs).
                bnd (callFunction P env (tok_text token) args optArgs (Some token) breakOn)
                  (\<lambda>n. ret (Some n))))))"

text \<open>\<open>Parser.endOfGroup\<close>, on the three texts that open a group.\<close>

definition endOfGroup :: "string \<Rightarrow> string" where
  "endOfGroup text =
     (if text = ''['' then '']'' else if text = ''{'' then ''}'' else bs # ''endgroup'')"

text \<open>
  The first branch of \<open>parseGroup\<close>: the lookahead \<open>firstToken\<close> opens a group.
\<close>

definition parseDelimited :: "parser \<Rightarrow> token \<Rightarrow> node option M" where
  "parseDelimited P firstToken =
     thn consume
     (thn beginGroup
     (bnd (pParseExpression P False (Some (endOfGroup (tok_text firstToken)))) (\<lambda>expression.
      bnd fetch (\<lambda>lastToken.
      thn (expect (endOfGroup (tok_text firstToken)) True)
      (thn endGroup
      (bnd getMode (\<lambda>m.
         ret (Some (OrdGroup m (range_loc (tok_loc firstToken) (tok_loc lastToken))
                      expression (tok_text firstToken = bs # ''begingroup''))))))))))"

text \<open>
  The last branch of \<open>parseGroup\<close>: a function, else a symbol, else an undefined control
  sequence.
\<close>

definition parseNucleus ::
  "parser \<Rightarrow> env \<Rightarrow> string \<Rightarrow> int option \<Rightarrow> string option \<Rightarrow> token \<Rightarrow> node option M"
where
  "parseNucleus P env name greed breakOn firstToken =
     bnd (parseFunction P env breakOn (Some name) greed) (\<lambda>func.
     bnd (case func of None \<Rightarrow> parseSymbol env | Some n \<Rightarrow> ret (Some n)) (\<lambda>result.
       if result = None \<and> take 1 (tok_text firstToken) = [bs] \<and>
          \<not> implicitCommands env (tok_text firstToken)
       then
         (if throwOnError (settings env)
          then throw (ParseError (''Undefined control sequence: '' @ tok_text firstToken)
                        (Some firstToken))
          else bnd (formatUnsupportedCmd env (tok_text firstToken)) (\<lambda>n.
                 thn consume (ret (Some n))))
       else ret result))"

definition parseGroup ::
  "parser \<Rightarrow> env \<Rightarrow> string \<Rightarrow> bool \<Rightarrow> int option \<Rightarrow> string option \<Rightarrow> mode option \<Rightarrow> bool \<Rightarrow> node option M"
where
  "parseGroup P env name optional greed breakOn mode consumeSp =
     bnd getMode (\<lambda>outerMode.
     thn (case mode of None \<Rightarrow> ret () | Some m \<Rightarrow> switchMode m)
     (thn (whenM consumeSp consumeSpaces)
     (bnd fetch (\<lambda>firstToken.
      bnd (if (if optional then tok_text firstToken = ''[''
               else tok_text firstToken = ''{'' \<or> tok_text firstToken = bs # ''begingroup'')
           then parseDelimited P firstToken
           else if optional then ret None
           else parseNucleus P env name greed breakOn firstToken)
        (\<lambda>result.
          thn (case mode of None \<Rightarrow> ret () | Some m \<Rightarrow> switchMode outerMode)
            (ret result))))))"

definition endOfExpression :: "string list" where
  "endOfExpression = [''}'', bs # ''endgroup'', bs # ''end'', bs # ''right'', ''&'']"

text \<open>
  One round of the \<open>while (true)\<close> loop of \<open>parseExpression\<close>, with the body so far; the
  next round is a call through \<open>this\<close>.
\<close>

definition expressionLoop ::
  "parser \<Rightarrow> env \<Rightarrow> bool \<Rightarrow> string option \<Rightarrow> node list \<Rightarrow> node list M"
where
  "expressionLoop P env breakOnInfix breakOn body =
     bnd getMode (\<lambda>m.
     thn (whenM (m = MathMode) consumeSpaces)
     (bnd fetch (\<lambda>lex.
        if tok_text lex \<in> set endOfExpression then ret body
        else if (case breakOn of None \<Rightarrow> False | Some b \<Rightarrow> b \<noteq> [] \<and> tok_text lex = b)
        then ret body
        else if breakOnInfix \<and>
                (case functionTable env (tok_text lex) of
                   None \<Rightarrow> False
                 | Some funcData \<Rightarrow> isInfix funcData)
        then ret body
        else
          bnd (pParseAtom P breakOn) (\<lambda>atom.
            case atom of
              None \<Rightarrow> ret body
            | Some a \<Rightarrow> pExpressionLoop P breakOnInfix breakOn (body @ [a])))))"

definition parseExpression :: "parser \<Rightarrow> env \<Rightarrow> bool \<Rightarrow> string option \<Rightarrow> node list M" where
  "parseExpression P env breakOnInfix breakOn =
     bnd (expressionLoop P env breakOnInfix breakOn []) (\<lambda>body.
     bnd getMode (\<lambda>m.
     bnd (if m = TextMode then liftE (formLigatures body) else ret body) (\<lambda>body'.
       handleInfixNodes P env body')))"

section \<open>The top level\<close>

definition parse :: "parser \<Rightarrow> env \<Rightarrow> node list M" where
  "parse P env =
     thn (whenM (\<not> globalGroup (settings env)) beginGroup)
     (thn (whenM (colorIsTextColor (settings env))
             (setMacro (bs # ''color'') (bs # ''textcolor'')))
     (bnd (parseExpression P env False None) (\<lambda>tree.
      thn (expect ''EOF'' True)
      (thn (whenM (\<not> globalGroup (settings env)) endGroup)
      (ret tree)))))"

text \<open>
  The parser object whose calls through \<open>this\<close> may nest \<open>n\<close> deep: at depth 0 every
  method stops with \<open>OutOfFuel\<close>; at depth \<open>n + 1\<close> the methods are those of the source,
  calling the parser of depth \<open>n\<close>.
\<close>

definition noParser :: parser where
  "noParser =
     \<lparr>pParseExpression = (\<lambda>a b. throw OutOfFuel),
      pParseAtom = (\<lambda>a. throw OutOfFuel),
      pParseGroup = (\<lambda>a b c d e f. throw OutOfFuel),
      pParseFunction = (\<lambda>a b c. throw OutOfFuel),
      pParseGroupOfType = (\<lambda>a b c d e. throw OutOfFuel),
      pCallFunction = (\<lambda>a b c d e. throw OutOfFuel),
      pExpressionLoop = (\<lambda>a b c. throw OutOfFuel),
      pAtomLoop = (\<lambda>a b c. throw OutOfFuel)\<rparr>"

definition parserStep :: "env \<Rightarrow> parser \<Rightarrow> parser" where
  "parserStep env P =
     \<lparr>pParseExpression = parseExpression P env,
      pParseAtom = parseAtom P env,
      pParseGroup = parseGroup P env,
      pParseFunction = parseFunction P env,
      pParseGroupOfType = parseGroupOfType P env,
      pCallFunction = callFunction P env,
      pExpressionLoop = expressionLoop P env,
      pAtomLoop = atomLoop P env\<rparr>"

primrec Parser :: "nat \<Rightarrow> env \<Rightarrow> parser" where
  "Parser 0 env = noParser"
| "Parser (Suc n) env = parserStep env (Parser n env)"

text \<open>The state of a new \<open>Parser\<close> over a list of tokens: math mode, nothing looked ahead.\<close>

definition newParser :: "token list \<Rightarrow> pstate" where
  "newParser toks =
     \<lparr>pmode = MathMode,
      gullet = \<lparr>stream = toks, gullet_mode = MathMode, group_depth = 0, macros = Map.empty,
                catcodes = [CHR ''%'' \<mapsto> 14]\<rparr>,
      leftrightDepth = 0,
      nextToken = None\<rparr>"

section \<open>The function \<open>\zInput\<close>\<close>

text \<open>
  The Number value of a natural number, as ECMAScript converts a mathematical value:
  a number below 2^53 is a double; a larger one is rounded to 53 significant bits, to the
  nearest double and to the even one of two that are equally near; \<open>None\<close> when the
  result is 2^1024 or more, which is beyond the largest double.
\<close>

fun bitLength :: "nat \<Rightarrow> nat" where
  "bitLength n = (if n = 0 then 0 else Suc (bitLength (n div 2)))"

declare bitLength.simps [simp del]

definition roundToDouble :: "nat \<Rightarrow> nat option" where
  "roundToDouble n =
     (if n < 2 ^ 53 then Some n
      else
        (let e = bitLength n - 53; hi = n div 2 ^ e; lo = n mod 2 ^ e;
             hi' = (if 2 ^ e < 2 * lo \<or> (2 * lo = 2 ^ e \<and> odd hi) then hi + 1 else hi)
         in if 2 ^ 1024 \<le> hi' * 2 ^ e then None else Some (hi' * 2 ^ e)))"

text \<open>
  \<open>parseInt(s)\<close> of JavaScript, without a radix: white space is skipped, a sign is read,
  a prefix \<open>0x\<close> or \<open>0X\<close> selects radix 16, and the longest run of digits is the integer
  that is read; the result is \<open>NaN\<close> when there is no digit, and else the Number value of
  the integer with the sign (\<open>-0\<close> for \<open>"-0"\<close>, an infinity beyond the largest double).
  ECMAScript lets an implementation read a decimal numeral of more than 20 significant
  digits with the digits after the 20th replaced by 0; the model rounds the exact integer.
\<close>

definition isWhiteSpace :: "char \<Rightarrow> bool" where
  "isWhiteSpace c \<longleftrightarrow> (of_char c :: nat) \<in> set [9, 10, 11, 12, 13, 32, 160]"

definition hexVal :: "char \<Rightarrow> nat" where
  "hexVal c =
     (if isDigit c then of_char c - 48
      else if c \<in> set ''abcdef'' then of_char c - 87
      else of_char c - 55)"

definition radixVal :: "nat \<Rightarrow> string \<Rightarrow> nat" where
  "radixVal r ds = foldl (\<lambda>n c. r * n + hexVal c) 0 ds"

definition parseDigits :: "string \<Rightarrow> nat option" where
  "parseDigits s =
     (if take 2 s = ''0x'' \<or> take 2 s = ''0X'' then
        (if takeWhile isHex (drop 2 s) = [] then None
         else Some (radixVal 16 (takeWhile isHex (drop 2 s))))
      else if takeWhile isDigit s = [] then None
      else Some (radixVal 10 (takeWhile isDigit s)))"

definition parseInt :: "string \<Rightarrow> number" where
  "parseInt str =
     (let s = dropWhile isWhiteSpace str;
          negative = (take 1 s = ''-'');
          digits = (if take 1 s = ''-'' \<or> take 1 s = ''+'' then drop 1 s else s)
      in case parseDigits digits of
           None \<Rightarrow> NaN
         | Some n \<Rightarrow>
             (case roundToDouble n of
                None \<Rightarrow> Infinity negative
              | Some v \<Rightarrow> Integer negative v))"

text \<open>
  Modelled from the spec: \<open>assertNodeType\<close> (of \<open>parseNode\<close>) is not among the sources. The
  spec gives every node kind by its \<open>type\<close> tag; the assertion returns the node when its
  tag is the expected one and raises otherwise.
\<close>

definition assertNodeType :: "node option \<Rightarrow> string \<Rightarrow> error + node" where
  "assertNodeType node type =
     (case node of
        None \<Rightarrow> Inl (TypeError (''Expected node of type '' @ type))
      | Some n \<Rightarrow>
          if node_type n = type then Inr n
          else Inl (TypeError (''Expected node of type '' @ type)))"

text \<open>The properties \<open>value\<close> of a \<open>size\<close> node and \<open>string\<close> of a \<open>raw\<close> node.\<close>

fun node_value :: "node \<Rightarrow> error + sizeval" where
  "node_value (Size m v b) = Inr v"
| "node_value n = Inl (TypeError ''no value'')"

fun node_string :: "node \<Rightarrow> error + string" where
  "node_string (Raw m s) = Inr s"
| "node_string n = Inl (TypeError ''no string'')"

text \<open>\<open>xs[0]\<close> of an array of nodes; \<open>None\<close> is \<open>undefined\<close>.\<close>

definition first :: "'a list \<Rightarrow> 'a option" where
  "first xs = (case xs of [] \<Rightarrow> None | x # r \<Rightarrow> Some x)"

text \<open>The handler of \<open>\zInput\<close> (\<open>src/functions/zInput.js\<close>).\<close>

definition zInputHandler :: handler where
  "zInputHandler ctx args optArgs =
     bnd (case first optArgs of
            Some (Some n) \<Rightarrow>
              bnd (liftE (assertNodeType (Some n) ''size'')) (\<lambda>sz. liftE (node_value sz))
          | other \<Rightarrow> ret (SizeVal (17 / 10) ''em'')) (\<lambda>width.
     bnd (liftE (assertNodeType (first args) ''raw'')) (\<lambda>rw.
     bnd (liftE (node_string rw)) (\<lambda>str.
     bnd getMode (\<lambda>m.
       ret (ZInput m (parseInt str) width)))))"

text \<open>
  The \<open>props\<close> of \<open>\zInput\<close>. \<open>defineFunction\<close> is not among the sources; the fields the
  call does not give (\<open>greediness\<close>, \<open>allowedInMath\<close>, \<open>infix\<close>) are taken at the values a
  function without them has: greediness 1, allowed in math mode, not infix.
\<close>

definition zInputSpec :: funcspec where
  "zInputSpec =
     \<lparr>numArgs = 1, numOptionalArgs = 1, argTypes = Some [''size'', ''raw''], greediness = 1,
      allowedInText = True, allowedInMath = True, isInfix = False,
      handler = Some zInputHandler\<rparr>"

section \<open>A registry for the examples\<close>

text \<open>
  Modelled from the spec: the function registry and the symbol tables are not among the
  sources. The examples run the parser with the infix function \<open>\over\<close>, whose handler
  returns an \<open>infix\<close> node \<open>{replaceWith: "\frac", token}\<close> and takes no arguments, with
  the function \<open>\frac\<close> of two arguments, which it is rewritten into, and with
  \<open>\zInput\<close>; the symbol table has the Latin letters (\<open>mathord\<close> in math mode,
  \<open>textord\<close> in text mode), the digits (\<open>textord\<close>) and the hyphen.
\<close>

definition overHandler :: handler where
  "overHandler ctx args optArgs =
     bnd getMode (\<lambda>m. ret (Infix m (bs # ''frac'') (ctx_token ctx)))"

definition fracHandler :: handler where
  "fracHandler ctx args optArgs =
     bnd getMode (\<lambda>m. ret (Other ''genfrac'' m args))"

definition overSpec :: funcspec where
  "overSpec =
     \<lparr>numArgs = 0, numOptionalArgs = 0, argTypes = None, greediness = 1,
      allowedInText = False, allowedInMath = True, isInfix = True,
      handler = Some overHandler\<rparr>"

definition fracSpec :: funcspec where
  "fracSpec =
     \<lparr>numArgs = 2, numOptionalArgs = 0, argTypes = None, greediness = 2,
      allowedInText = False, allowedInMath = True, isInfix = False,
      handler = Some fracHandler\<rparr>"

definition exampleFunctions :: "string \<rightharpoonup> funcspec" where
  "exampleFunctions name =
     (if name = bs # ''over'' then Some overSpec
      else if name = bs # ''frac'' then Some fracSpec
      else if name = bs # ''zInput'' then Some zInputSpec
      else None)"

definition exampleSymbols :: "mode \<Rightarrow> string \<rightharpoonup> string" where
  "exampleSymbols m s =
     (case s of
        [c] \<Rightarrow>
          if isAlpha c then Some (if m = MathMode then ''mathord'' else ''textord'')
          else if isDigit c then Some ''textord''
          else if c = CHR ''-'' then Some (if m = MathMode then ''bin'' else ''textord'')
          else None
      | other \<Rightarrow> None)"

definition exampleSettings :: "bool \<Rightarrow> settings" where
  "exampleSettings throwIt =
     \<lparr>globalGroup = False, colorIsTextColor = False, throwOnError = throwIt, strict = False,
      errorColor = ''#cc0000'', reportNonstrict = (\<lambda>kind msg tok. None)\<rparr>"

definition exampleEnv :: "bool \<Rightarrow> env" where
  "exampleEnv throwIt =
     \<lparr>functionTable = exampleFunctions,
      implicitCommands = (\<lambda>s. False),
      symbols = exampleSymbols,
      ATOMS = (\<lambda>g. g \<in> set [''bin'', ''close'', ''inner'', ''open'', ''punct'', ''rel'']),
      extraLatin = (\<lambda>s. False),
      unicodeSymbols = Map.empty,
      supportedCodepoint = (\<lambda>n. False),
      validUnit = (\<lambda>v. sv_unit v \<in> set [''pt'', ''em'', ''ex'', ''mu'']),
      settings = exampleSettings throwIt\<rparr>"

text \<open>Tokens without source locations.\<close>

definition toks :: "string list \<Rightarrow> token list" where
  "toks ss = map (\<lambda>s. Token s None) ss"

text \<open>A node of type \<open>infix\<close> anywhere in a tree.\<close>

fun hasInfix :: "node \<Rightarrow> bool" where
  "hasInfix (OrdGroup m l b s) = (\<exists>n \<in> set b. hasInfix n)"
| "hasInfix (SupSub m b u d) =
     ((case b of None \<Rightarrow> False | Some n \<Rightarrow> hasInfix n) \<or>
      (case u of None \<Rightarrow> False | Some n \<Rightarrow> hasInfix n) \<or>
      (case d of None \<Rightarrow> False | Some n \<Rightarrow> hasInfix n))"
| "hasInfix (Infix m r t) = True"
| "hasInfix (Accent m l lab st sh b) = hasInfix b"
| "hasInfix (Color m c b) = (\<exists>n \<in> set b. hasInfix n)"
| "hasInfix (Styling m s b) = (\<exists>n \<in> set b. hasInfix n)"
| "hasInfix (TextNode m b) = (\<exists>n \<in> set b. hasInfix n)"
| "hasInfix (OperatorName m l a b) = (\<exists>n \<in> set b. hasInfix n)"
| "hasInfix (Other ty m b) = (ty = ''infix'' \<or> (\<exists>n \<in> set b. hasInfix n))"
| "hasInfix (Symbol g m l t) = (g = ''infix'')"
| "hasInfix n = False"

section \<open>Ligatures: the loop as a recursion on the list\<close>

text \<open>
  What the loop computes, written as a recursion on the remaining elements: the model
  of \<open>formLigatures\<close> is the loop above, and \<open>formLigatures_lig\<close> below proves that the
  two agree.
\<close>

fun lig :: "node list \<Rightarrow> node list" where
  "lig (a # b # rest) =
     (if node_text a = Some ''-'' \<and> node_text b = Some ''-'' then
        (case rest of
           [] \<Rightarrow> [ligature a b ''--'']
         | c # rest' \<Rightarrow>
             if node_text c = Some ''-'' then ligature a c ''---'' # lig rest'
             else ligature a b ''--'' # lig rest)
      else if node_text a = Some [CHR 0x27] \<and> node_text b = Some [CHR 0x27]
        then ligature a b [CHR 0x27, CHR 0x27] # lig rest
      else if node_text a = Some [CHR 0x60] \<and> node_text b = Some [CHR 0x60]
        then ligature a b [CHR 0x60, CHR 0x60] # lig rest
      else a # lig (b # rest))"
| "lig xs = xs"

text \<open>Two neighbours that the loop would collapse.\<close>

definition collapsible :: "node \<Rightarrow> node \<Rightarrow> bool" where
  "collapsible a b \<longleftrightarrow>
     (node_text a = Some ''-'' \<and> node_text b = Some ''-'') \<or>
     (node_text a = Some [CHR 0x27] \<and> node_text b = Some [CHR 0x27]) \<or>
     (node_text a = Some [CHR 0x60] \<and> node_text b = Some [CHR 0x60])"

text \<open>A node whose text has at least two characters, as every ligature has.\<close>

definition formed :: "node \<Rightarrow> bool" where
  "formed h \<longleftrightarrow> (\<exists>t. node_text h = Some t \<and> 2 \<le> length t)"

fun stable :: "node list \<Rightarrow> bool" where
  "stable (a # b # rest) = (\<not> collapsible a b \<and> stable (b # rest))"
| "stable xs = True"


section \<open>Notions used in the statements\<close>

text \<open>The nodes of the text node inside an unsupported-command node.\<close>

fun textChildren :: "node \<Rightarrow> node list" where
  "textChildren (Color m c [TextNode m' b]) = b"
| "textChildren n = []"

text \<open>A node whose type is \<open>infix\<close>.\<close>

definition isInfixNode :: "node \<Rightarrow> bool" where
  "isInfixNode n \<longleftrightarrow> node_type n = ''infix''"

definition infixMessage :: string where
  "infixMessage = ''only one infix operator per group''"

text \<open>The node of one prime, \<open>{type: "textord", mode, text: "\prime"}\<close>.\<close>

definition primeNode :: "mode \<Rightarrow> node" where
  "primeNode m = Symbol ''textord'' m None (bs # ''prime'')"

text \<open>
  The state after a run of tokens has been consumed and the token \<open>t\<close> after the run has
  been fetched; \<open>rest\<close> is what follows \<open>t\<close> in the stream with the \<open>EOF\<close> sentinel at its
  end.
\<close>

definition afterRun :: "pstate \<Rightarrow> token \<Rightarrow> token list \<Rightarrow> pstate" where
  "afterRun st t rest = st\<lparr>gullet := (gullet st)\<lparr>stream := butlast rest\<rparr>, nextToken := Some t\<rparr>"

text \<open>
  The state of a parser in math mode whose lookahead is the first of the given token
  texts, with the others still in the stream.
\<close>

definition afterBase :: "string list \<Rightarrow> pstate" where
  "afterBase ss = (newParser (toks (tl ss)))\<lparr>nextToken := Some (Token (hd ss) None)\<rparr>"

text \<open>
  The states of a call of \<open>parseGroup\<close>: after the switch to the mode that was asked for
  (none when no mode is given), after the spaces that were to be skipped, and, on the way
  out, after the switch back to the mode of the state \<open>st\<close> of the call.
\<close>

definition inMode :: "mode option \<Rightarrow> pstate \<Rightarrow> pstate" where
  "inMode mode st = (case mode of None \<Rightarrow> st | Some m \<Rightarrow> snd (switchMode m st))"

definition skipSpaces :: "bool \<Rightarrow> pstate \<Rightarrow> pstate" where
  "skipSpaces consumeSp st = (if consumeSp then consumeSpaces_st st else st)"

definition backTo :: "mode option \<Rightarrow> pstate \<Rightarrow> pstate \<Rightarrow> pstate" where
  "backTo mode st s = (case mode of None \<Rightarrow> s | Some m \<Rightarrow> snd (switchMode (pmode st) s))"

text \<open>
  A lookahead that is an undefined control sequence: it starts with a backslash and is
  neither \<open>\begingroup\<close>, a function, \<open>\verb\<close>, a symbol of the mode, nor an implicit
  command.
\<close>

definition undefinedCs :: "env \<Rightarrow> mode \<Rightarrow> token \<Rightarrow> bool" where
  "undefinedCs env m tok \<longleftrightarrow>
     take 1 (tok_text tok) = [bs] \<and> tok_text tok \<noteq> bs # ''begingroup'' \<and>
     functionTable env (tok_text tok) = None \<and> \<not> rtest verbRegex (tok_text tok) \<and>
     unicodeSymbols env bs = None \<and> symbols env m (tok_text tok) = None \<and>
     \<not> implicitCommands env (tok_text tok)"

text \<open>The node that \<open>formatUnsupportedCmd\<close> builds in mode \<open>m\<close> from the text.\<close>

definition unsupportedNode :: "env \<Rightarrow> mode \<Rightarrow> string \<Rightarrow> node" where
  "unsupportedNode env m text =
     Color m (errorColor (settings env))
       [TextNode m (map (\<lambda>c. Symbol ''textord'' TextMode None [c]) text)]"

text \<open>A method that leaves the catcode table as it finds it, on every path.\<close>

definition keeps :: "'a M \<Rightarrow> bool" where
  "keeps m \<longleftrightarrow> (\<forall>st. catcodes (gullet (snd (m st))) = catcodes (gullet st))"


section \<open>Properties of ligature formation\<close>

lemma text_at_append:
  "length pre \<le> k \<Longrightarrow> text_at (pre @ suf) k = text_at suf (k - length pre)"
  by (auto simp: text_at_def nth_append)

lemma text_at_Cons:
  "text_at (x # xs) 0 = Inr (node_text x)"
  "text_at (x # xs) (Suc k) = text_at xs k"
  "text_at [] k = Inl (TypeError ''Cannot read property text of undefined'')"
  by (simp_all add: text_at_def)

lemma splice_append: "splice (pre @ suf) (length pre) k x = pre @ x # drop k suf"
  by (simp add: splice_def)

lemma nth_append_ge: "length pre \<le> k \<Longrightarrow> (pre @ suf) ! k = suf ! (k - length pre)"
  by (simp add: nth_append)

lemmas lig_eval = ligStep_def dashStep_def quoteStep_def text_at_append text_at_Cons
  splice_append nth_append_ge numeral_2_eq_2 numeral_3_eq_3

lemma ligStep_dash3:
  assumes "node_text a = Some ''-''" "node_text b = Some ''-''" "node_text c = Some ''-''"
  shows "ligStep (length pre) (int (length pre + length (a # b # c # rest)) - 1)
           (pre @ a # b # c # rest)
         = Inr (pre @ ligature a c ''---'' # rest, int (length pre + length rest))"
  using assms by (simp add: lig_eval)

lemma ligStep_dash2:
  assumes "node_text a = Some ''-''" "node_text b = Some ''-''" "node_text c \<noteq> Some ''-''"
  shows "ligStep (length pre) (int (length pre + length (a # b # c # rest)) - 1)
           (pre @ a # b # c # rest)
         = Inr (pre @ ligature a b ''--'' # c # rest, int (length pre + length (c # rest)))"
  using assms by (simp add: lig_eval)

lemma ligStep_dash2_end:
  assumes "node_text a = Some ''-''" "node_text b = Some ''-''"
  shows "ligStep (length pre) (int (length pre + length [a, b]) - 1) (pre @ [a, b])
         = Inr (pre @ [ligature a b ''--''], int (length pre))"
  using assms by (simp add: lig_eval)

lemma ligStep_quote:
  assumes "node_text a = Some v" "v = [CHR 0x27] \<or> v = [CHR 0x60]" "node_text b = Some v"
  shows "ligStep (length pre) (int (length pre + length (a # b # rest)) - 1)
           (pre @ a # b # rest)
         = Inr (pre @ ligature a b (v @ v) # rest, int (length pre + length rest))"
  using assms by (auto simp add: lig_eval)

lemma ligStep_none:
  assumes "\<not> collapsible a b"
  shows "ligStep (length pre) (int (length pre + length (a # b # rest)) - 1)
           (pre @ a # b # rest)
         = Inr (pre @ a # b # rest, int (length pre + length (a # b # rest)) - 1)"
  using assms by (auto simp add: lig_eval collapsible_def split: option.splits)

lemma loop_unfold_step:
  "ligStep i n grp = Inr (grp', n') \<Longrightarrow> int i < n \<Longrightarrow>
   formLigatures_loop i n grp = formLigatures_loop (i + 1) n' grp'"
  by (subst formLigatures_loop.simps) simp

lemma loop_stop: "\<not> int i < n \<Longrightarrow> formLigatures_loop i n grp = Inr grp"
  by (subst formLigatures_loop.simps) simp

lemma loop_lig:
  "formLigatures_loop (length pre) (int (length pre + length suf) - 1) (pre @ suf)
   = Inr (pre @ lig suf)"
proof (induction suf arbitrary: pre rule: lig.induct)
  case (1 a b rest)
  let ?n = "int (length pre + length (a # b # rest)) - 1"
  let ?go = "formLigatures_loop (length pre) ?n (pre @ a # b # rest)"
  show ?case
  proof (cases "node_text a = Some ''-'' \<and> node_text b = Some ''-''")
    case dash: True
    show ?thesis
    proof (cases rest)
      case Nil
      have "?go = formLigatures_loop (length pre + 1) (int (length pre))
                    (pre @ [ligature a b ''--''])"
        using loop_unfold_step [OF ligStep_dash2_end [of a b pre]] dash Nil by simp
      also have "\<dots> = Inr (pre @ [ligature a b ''--''])"
        by (rule loop_stop) simp
      finally show ?thesis using dash Nil by simp
    next
      case (Cons c rest')
      show ?thesis
      proof (cases "node_text c = Some ''-''")
        case True
        have "?go = formLigatures_loop (length pre + 1) (int (length pre + length rest'))
                      (pre @ ligature a c ''---'' # rest')"
          using loop_unfold_step [OF ligStep_dash3 [of a b c pre rest']] dash Cons True by simp
        also have "\<dots> = Inr ((pre @ [ligature a c ''---'']) @ lig rest')"
          using "1.IH"(1) [OF dash Cons True, of "pre @ [ligature a c ''---'']"] by simp
        finally show ?thesis using dash Cons True by simp
      next
        case False
        have "?go = formLigatures_loop (length pre + 1) (int (length pre + length rest))
                      (pre @ ligature a b ''--'' # rest)"
          using loop_unfold_step [OF ligStep_dash2 [of a b c pre rest']] dash Cons False by simp
        also have "\<dots> = Inr ((pre @ [ligature a b ''--'']) @ lig rest)"
          using "1.IH"(2) [OF dash Cons False, of "pre @ [ligature a b ''--'']"] by simp
        finally show ?thesis using dash Cons False by simp
      qed
    qed
  next
    case nodash: False
    show ?thesis
    proof (cases "node_text a = Some [CHR 0x27] \<and> node_text b = Some [CHR 0x27]")
      case q: True
      have "?go = formLigatures_loop (length pre + 1) (int (length pre + length rest))
                    (pre @ ligature a b ([CHR 0x27] @ [CHR 0x27]) # rest)"
        using loop_unfold_step [OF ligStep_quote [of a "[CHR 0x27]" b pre rest]] q by simp
      also have "\<dots> = Inr ((pre @ [ligature a b [CHR 0x27, CHR 0x27]]) @ lig rest)"
        using "1.IH"(3) [OF nodash q, of "pre @ [ligature a b [CHR 0x27, CHR 0x27]]"] by simp
      finally show ?thesis using nodash q by simp
    next
      case noq: False
      show ?thesis
      proof (cases "node_text a = Some [CHR 0x60] \<and> node_text b = Some [CHR 0x60]")
        case bq: True
        have "?go = formLigatures_loop (length pre + 1) (int (length pre + length rest))
                      (pre @ ligature a b ([CHR 0x60] @ [CHR 0x60]) # rest)"
          using loop_unfold_step [OF ligStep_quote [of a "[CHR 0x60]" b pre rest]] bq by simp
        also have "\<dots> = Inr ((pre @ [ligature a b [CHR 0x60, CHR 0x60]]) @ lig rest)"
          using "1.IH"(4) [OF nodash noq bq, of "pre @ [ligature a b [CHR 0x60, CHR 0x60]]"]
          by simp
        finally show ?thesis using nodash noq bq by simp
      next
        case nobq: False
        have nc: "\<not> collapsible a b"
          using nodash noq nobq by (simp add: collapsible_def)
        have "?go = formLigatures_loop (length pre + 1) ?n (pre @ a # b # rest)"
          using loop_unfold_step [OF ligStep_none [OF nc, of pre rest]] by simp
        also have "\<dots> = Inr ((pre @ [a]) @ lig (b # rest))"
          using "1.IH"(5) [OF nodash noq nobq, of "pre @ [a]"] by simp
        finally show ?thesis using nodash noq nobq by auto
      qed
    qed
  qed
qed (simp_all add: loop_stop)

lemma formLigatures_lig: "formLigatures grp = Inr (lig grp)"
  using loop_lig [of "[]" grp] by (simp add: formLigatures_def)

lemma formed_not_collapsible:
  "formed h \<Longrightarrow> \<not> collapsible a h" "formed h \<Longrightarrow> \<not> collapsible h b"
  by (auto simp: formed_def collapsible_def)

lemma formed_ligature: "2 \<le> length t \<Longrightarrow> formed (ligature a b t)"
  by (simp add: formed_def ligature_def)

lemma lig_head: "\<exists>h t. lig (b # rest) = h # t \<and> (h = b \<or> formed h)"
proof (cases rest)
  case Nil
  then show ?thesis by simp
next
  case (Cons c rest')
  then show ?thesis
    by (cases rest') (auto simp: formed_ligature)
qed

lemma stable_lig: "stable (lig xs)"
proof (induction xs rule: lig.induct)
  case (1 a b rest)
  obtain h t where ht: "lig (b # rest) = h # t" "h = b \<or> formed h"
    using lig_head by blast
  have keep: "stable (a # lig (b # rest))"
    if "stable (lig (b # rest))" "\<not> collapsible a b"
    using that ht by (auto simp: formed_not_collapsible)
  have front: "stable (ligature x y t # ys)" if "stable ys" "2 \<le> length t" for x y t ys
    using that by (cases ys) (auto simp: formed_not_collapsible formed_ligature)
  show ?case
  proof (cases "node_text a = Some ''-'' \<and> node_text b = Some ''-''")
    case dash: True
    show ?thesis
    proof (cases rest)
      case Nil
      then show ?thesis using dash by simp
    next
      case (Cons c rest')
      then show ?thesis
        using dash "1.IH"(1) [OF dash Cons] "1.IH"(2) [OF dash Cons]
        by (auto intro!: front)
    qed
  next
    case nodash: False
    show ?thesis
    proof (cases "node_text a = Some [CHR 0x27] \<and> node_text b = Some [CHR 0x27]")
      case q: True
      then show ?thesis
        using nodash "1.IH"(3) [OF nodash q] by (auto intro!: front)
    next
      case noq: False
      show ?thesis
      proof (cases "node_text a = Some [CHR 0x60] \<and> node_text b = Some [CHR 0x60]")
        case bq: True
        then show ?thesis
          using nodash noq "1.IH"(4) [OF nodash noq bq] by (auto intro!: front)
      next
        case nobq: False
        have "\<not> collapsible a b"
          using nodash noq nobq by (simp add: collapsible_def)
        then show ?thesis
          using nodash noq nobq keep [OF "1.IH"(5) [OF nodash noq nobq]] by auto
      qed
    qed
  qed
qed simp_all

lemma lig_stable: "stable xs \<Longrightarrow> lig xs = xs"
  by (induction xs rule: lig.induct) (auto simp: collapsible_def)

lemma lig_idem: "lig (lig xs) = lig xs"
  by (simp add: lig_stable stable_lig)

text \<open>
  C9. \<open>formLigatures\<close> is idempotent: it returns normally on every node list (it never
  reads past the end of the list), and running it again on the list it produced leaves
  that list unchanged.
\<close>

theorem formLigatures_idempotent:
  "\<exists>out. formLigatures grp = Inr out \<and> formLigatures out = Inr out"
  by (simp add: formLigatures_lig lig_idem)

section \<open>Running the model\<close>

text \<open>
  Rules for evaluating the model on a concrete input with the simplifier: the
  continuation of a \<open>bnd\<close> is looked at only once its first part has returned.
\<close>

lemma bnd_res_simps:
  "bnd_res (Inr a, st) f = f a st"
  "bnd_res (Inl e, st) f = (Inl e, st)"
  by (simp_all add: bnd_res_def)

lemma bnd_cong_weak: "m = m' \<Longrightarrow> bnd m f = bnd m' f"
  by simp

lemma bnd_res_cong_weak: "r = r' \<Longrightarrow> bnd_res r f = bnd_res r' f"
  by simp

lemma thn_cong_weak: "m = m' \<Longrightarrow> thn m k = thn m' k"
  by simp

lemma thn_apply: "thn m k st = bnd_res (m st) (\<lambda>u. k)"
  by (simp add: thn_def bnd_def)

lemma bnd_Inr:
  "bnd m f st = (Inr r, st') \<Longrightarrow> \<exists>a st1. m st = (Inr a, st1) \<and> f a st1 = (Inr r, st')"
  by (auto simp: bnd_def bnd_res_def split: prod.splits sum.splits)

lemma thn_Inr:
  "thn m k st = (Inr r, st') \<Longrightarrow> \<exists>st1. m st = (Inr (), st1) \<and> k st1 = (Inr r, st')"
  by (auto simp: thn_def dest!: bnd_Inr)

lemma Parser_sel:
  "0 < n \<Longrightarrow> pParseExpression (Parser n env) = parseExpression (Parser (n - 1) env) env"
  "0 < n \<Longrightarrow> pParseAtom (Parser n env) = parseAtom (Parser (n - 1) env) env"
  "0 < n \<Longrightarrow> pParseGroup (Parser n env) = parseGroup (Parser (n - 1) env) env"
  "0 < n \<Longrightarrow> pParseFunction (Parser n env) = parseFunction (Parser (n - 1) env) env"
  "0 < n \<Longrightarrow> pParseGroupOfType (Parser n env) = parseGroupOfType (Parser (n - 1) env) env"
  "0 < n \<Longrightarrow> pCallFunction (Parser n env) = callFunction (Parser (n - 1) env) env"
  "0 < n \<Longrightarrow> pExpressionLoop (Parser n env) = expressionLoop (Parser (n - 1) env) env"
  "0 < n \<Longrightarrow> pAtomLoop (Parser n env) = atomLoop (Parser (n - 1) env) env"
  by (cases n; simp add: parserStep_def)+

lemmas prim_eval = ret_def throw_def bnd_def thn_apply bnd_res_simps whenM_def getMode_def
  setMode_def switchMode_def fetch_def fetch_st_def consume_def consume_st_def
  expandNextToken_def expect_def beginGroup_def endGroup_def setMacro_def setCatcode_def
  consumeSpaces_def consumeSpaces_st.simps liftE_def report_def eofToken_def q_def bs_def
  Let_def tok_range_def

lemmas regex_eval = rtest_def verbRegex_def lit_def ropt_def rplus_def isAlpha_def isLower_def
  isUpper_def isDigit_def isHex_def isSpace_def isSign_def isDot_def

lemmas parser_eval = parse_def parseExpression_def expressionLoop_def parseAtom_def atomLoop_def
  parseGroup_def parseDelimited_def parseNucleus_def parseFunction_def parseArguments_def
  parseGroupOfType_def parseSymbol_def expandUnicodeSymbol_def parseVerb_def
  handleInfixNodes_def callFunction_def handleSupSubscript_def parsePrimes_def
  collectPrimes.simps formatUnsupportedCmd_def endOfExpression_def endOfGroup_def
  infixSide_def abovefrac_def argTypeAt_def isOptionalAt_def Parser_sel newParser_def
  parseStringGroup_def stringLoop.simps parseUrlGroup_def formLigatures_lig

lemma exampleEnv_sel:
  "functionTable (exampleEnv t) = exampleFunctions"
  "implicitCommands (exampleEnv t) = (\<lambda>s. False)"
  "symbols (exampleEnv t) = exampleSymbols"
  "ATOMS (exampleEnv t) = (\<lambda>g. g \<in> set [''bin'', ''close'', ''inner'', ''open'', ''punct'', ''rel''])"
  "extraLatin (exampleEnv t) = (\<lambda>s. False)"
  "unicodeSymbols (exampleEnv t) = Map.empty"
  "supportedCodepoint (exampleEnv t) = (\<lambda>n. False)"
  "validUnit (exampleEnv t) = (\<lambda>v. sv_unit v \<in> set [''pt'', ''em'', ''ex'', ''mu''])"
  "globalGroup (settings (exampleEnv t)) = False"
  "colorIsTextColor (settings (exampleEnv t)) = False"
  "throwOnError (settings (exampleEnv t)) = t"
  "strict (settings (exampleEnv t)) = False"
  "errorColor (settings (exampleEnv t)) = ''#cc0000''"
  by (simp_all add: exampleEnv_def exampleSettings_def)

lemmas env_eval = exampleEnv_sel exampleFunctions_def exampleSymbols_def overSpec_def fracSpec_def
  zInputSpec_def overHandler_def fracHandler_def zInputHandler_def toks_def

section \<open>Groups that start with a control sequence\<close>


lemma fetch_st_again: "fetch_st st = (tok, st1) \<Longrightarrow> fetch_st st1 = (tok, st1)"
  by (auto simp: fetch_st_def expandNextToken_def split: option.splits list.splits)

lemma fetch_st_pmode: "fetch_st st = (tok, st1) \<Longrightarrow> pmode st1 = pmode st"
  by (auto simp: fetch_st_def expandNextToken_def split: option.splits list.splits)

lemma fetch_eq: "fetch_st st = (tok, st1) \<Longrightarrow> fetch st = (Inr tok, st1)"
  by (simp add: fetch_def)

lemma parseSymbol_undefined:
  assumes "fetch_st st1 = (tok, st1)" "tok_text tok = bs # rest"
    "\<not> rtest verbRegex (tok_text tok)" "unicodeSymbols env bs = None"
    "symbols env (pmode st1) (tok_text tok) = None"
  shows "parseSymbol env st1 = (Inr None, st1)"
  using assms
  by (simp add: parseSymbol_def expandUnicodeSymbol_def bnd_def bnd_res_simps fetch_eq ret_def
      getMode_def bs_def)

text \<open>
  \<open>parseGroup\<close> as the parse of the group between the switch of the mode and the switch
  back.
\<close>

lemma consumeSpaces_st_pmode: "pmode (consumeSpaces_st st) = pmode st"
proof (induction st rule: consumeSpaces_st.induct)
  case (1 st)
  obtain t st1 where f: "fetch_st st = (t, st1)" by (cases "fetch_st st")
  have m: "pmode st1 = pmode st" using f by (rule fetch_st_pmode)
  show ?case
  proof (cases "tok_text t = '' ''")
    case True
    from "1.IH" [OF refl f [symmetric] True] m f True show ?thesis
      by (subst consumeSpaces_st.simps) (simp add: consume_st_def)
  next
    case False
    with f m show ?thesis by (subst consumeSpaces_st.simps) simp
  qed
qed

lemma skipSpaces_pmode: "pmode (skipSpaces c st) = pmode st"
  by (simp add: skipSpaces_def consumeSpaces_st_pmode)

lemma parseGroup_entry:
  "parseGroup P env name optional greed breakOn mode consumeSp st
     = bnd_res
         (bnd_res (fetch (skipSpaces consumeSp (inMode mode st))) (\<lambda>firstToken.
            if (if optional then tok_text firstToken = ''[''
                else tok_text firstToken = ''{'' \<or> tok_text firstToken = bs # ''begingroup'')
            then parseDelimited P firstToken
            else if optional then ret None
            else parseNucleus P env name greed breakOn firstToken))
         (\<lambda>result s. (Inr result, backTo mode st s))"
proof -
  have k: "(\<lambda>result. thn (ret ()) (ret result)) = (\<lambda>result s. (Inr result, s))"
    "\<And>m. (\<lambda>result. thn (switchMode m) (ret result))
       = (\<lambda>result s. (Inr result, snd (switchMode m s)))"
    by (simp_all add: fun_eq_iff thn_apply ret_def bnd_res_simps switchMode_def)
  show ?thesis
    by (cases mode)
      (simp_all add: parseGroup_def bnd_def bnd_res_simps getMode_def thn_apply switchMode_def
        whenM_def consumeSpaces_def ret_def inMode_def skipSpaces_def backTo_def fetch_def k)
qed

lemma parseNucleus_undefined:
  assumes fs: "fetch_st st1 = (tok, st1)" and u: "undefinedCs env (pmode st1) tok"
  shows "parseNucleus P env name greed breakOn tok st1
     = (if throwOnError (settings env)
        then (Inl (ParseError (''Undefined control sequence: '' @ tok_text tok) (Some tok)), st1)
        else (Inr (Some (unsupportedNode env (pmode st1) (tok_text tok))), consume_st st1))"
proof -
  from u obtain rest where tx: "tok_text tok = bs # rest"
    by (cases "tok_text tok") (auto simp: undefinedCs_def)
  from u have nf: "functionTable env (tok_text tok) = None"
    and nv: "\<not> rtest verbRegex (tok_text tok)" and nu: "unicodeSymbols env bs = None"
    and ns: "symbols env (pmode st1) (tok_text tok) = None"
    and ni: "\<not> implicitCommands env (tok_text tok)"
    by (simp_all add: undefinedCs_def)
  have sym: "parseSymbol env st1 = (Inr None, st1)"
    using parseSymbol_undefined [OF fs tx nv nu ns] .
  have fn: "parseFunction P env breakOn (Some name) greed st1 = (Inr None, st1)"
    using nf fetch_eq [OF fs] by (simp add: parseFunction_def bnd_def bnd_res_simps ret_def)
  show ?thesis
    using ni fn sym
    by (simp add: parseNucleus_def bnd_def bnd_res_simps ret_def formatUnsupportedCmd_def
        getMode_def thn_apply consume_def tx throw_def unsupportedNode_def)
qed

lemma parseGroup_undefined:
  assumes fs: "fetch_st (skipSpaces consumeSp (inMode mode st)) = (tok, st1)"
    and u: "undefinedCs env (pmode (inMode mode st)) tok"
  shows "parseGroup P env name False greed breakOn mode consumeSp st
     = (if throwOnError (settings env)
        then (Inl (ParseError (''Undefined control sequence: '' @ tok_text tok) (Some tok)), st1)
        else (Inr (Some (unsupportedNode env (pmode (inMode mode st)) (tok_text tok))),
              backTo mode st (consume_st st1)))"
proof -
  have m: "pmode st1 = pmode (inMode mode st)"
    using fetch_st_pmode [OF fs] by (simp add: skipSpaces_pmode)
  from u have open_brace: "tok_text tok \<noteq> ''{''" "tok_text tok \<noteq> bs # ''begingroup''"
    by (auto simp: undefinedCs_def bs_def)
  have nuc: "parseNucleus P env name greed breakOn tok st1
     = (if throwOnError (settings env)
        then (Inl (ParseError (''Undefined control sequence: '' @ tok_text tok) (Some tok)), st1)
        else (Inr (Some (unsupportedNode env (pmode (inMode mode st)) (tok_text tok))),
              consume_st st1))"
    using parseNucleus_undefined [OF fetch_st_again [OF fs], of env P name greed breakOn] u m
    by simp
  show ?thesis
    using open_brace nuc
    by (simp add: parseGroup_entry fetch_eq [OF fs] bnd_res_simps)
qed

lemma parseGroup_optional_cs:
  assumes fs: "fetch_st (skipSpaces consumeSp (inMode mode st)) = (tok, st1)"
    and tx: "take 1 (tok_text tok) = [bs]"
  shows "parseGroup P env name True greed breakOn mode consumeSp st
     = (Inr None, backTo mode st st1)"
proof -
  from tx have "tok_text tok \<noteq> ''[''" by (auto simp: bs_def)
  then show ?thesis
    by (simp add: parseGroup_entry fetch_eq [OF fs] bnd_res_simps ret_def)
qed

lemma parseGroup_error_iff:
  "parseGroup P env name optional greed breakOn (Some m) consumeSp st = (Inl e, st')
   \<longleftrightarrow> parseGroup P env name optional greed breakOn None consumeSp (snd (switchMode m st))
         = (Inl e, st')"
  by (auto simp: parseGroup_entry inMode_def backTo_def bnd_res_def
      split: sum.splits prod.splits)


section \<open>Mode and catcode scoping\<close>

text \<open>
  C2, as amended. A call of \<open>parseGroup\<close> with an explicit mode that returns normally leaves
  the parser in the mode it was called in. A call that raises leaves the state as it was
  when the error was raised: it raises exactly when the same call without a mode, made
  after the switch to the mode, raises, with the same error and in the same state, so the
  mode is not switched back. So an undefined control sequence under \<open>throwOnError\<close> raises
  with the parser in the mode that was asked for.
\<close>

theorem parseGroup_restores_mode:
  "(\<forall>r st'. parseGroup P env name optional greed breakOn (Some m) consumeSp st = (Inr r, st')
      \<longrightarrow> pmode st' = pmode st) \<and>
   (\<forall>e st'.
      (parseGroup P env name optional greed breakOn (Some m) consumeSp st = (Inl e, st')) =
      (parseGroup P env name optional greed breakOn None consumeSp (snd (switchMode m st))
         = (Inl e, st'))) \<and>
   (throwOnError (settings env) \<and>
    fetch_st (skipSpaces consumeSp (snd (switchMode m st))) = (tok, st1) \<and>
    undefinedCs env m tok \<longrightarrow>
      parseGroup P env name False greed breakOn (Some m) consumeSp st
        = (Inl (ParseError (''Undefined control sequence: '' @ tok_text tok) (Some tok)), st1) \<and>
      pmode st1 = m)"
proof (intro conjI allI impI)
  fix r st'
  assume "parseGroup P env name optional greed breakOn (Some m) consumeSp st = (Inr r, st')"
  then show "pmode st' = pmode st"
    by (auto simp: parseGroup_def getMode_def switchMode_def ret_def dest!: bnd_Inr thn_Inr)
next
  fix e st'
  show "(parseGroup P env name optional greed breakOn (Some m) consumeSp st = (Inl e, st')) =
      (parseGroup P env name optional greed breakOn None consumeSp (snd (switchMode m st))
         = (Inl e, st'))"
    by (rule parseGroup_error_iff)
next
  assume a: "throwOnError (settings env) \<and>
    fetch_st (skipSpaces consumeSp (snd (switchMode m st))) = (tok, st1) \<and>
    undefinedCs env m tok"
  then have fs: "fetch_st (skipSpaces consumeSp (inMode (Some m) st)) = (tok, st1)"
    and u: "undefinedCs env (pmode (inMode (Some m) st)) tok"
    by (simp_all add: inMode_def switchMode_def)
  from parseGroup_undefined [OF fs u, of P name greed breakOn] a
  show "parseGroup P env name False greed breakOn (Some m) consumeSp st
        = (Inl (ParseError (''Undefined control sequence: '' @ tok_text tok) (Some tok)), st1)"
    by simp
  from fetch_st_pmode [OF fs] show "pmode st1 = m"
    by (simp add: skipSpaces_pmode inMode_def switchMode_def)
qed


text \<open>
  The theorem at the group \<open>{a}\<close> parsed in text mode by a parser in math mode, and at the
  undefined control sequence \<open>\foo\<close>, where the call raises and leaves the parser in text
  mode.
\<close>

theorem parseGroup_restores_mode_witness:
  "fst (parseGroup (Parser 10 (exampleEnv True)) (exampleEnv True) ''argument'' False None None
          (Some TextMode) False (newParser (toks [''{'', ''a'', ''}''])))
     = Inr (Some (OrdGroup TextMode None [Symbol ''textord'' TextMode None ''a''] False)) \<and>
   pmode (snd (parseGroup (Parser 10 (exampleEnv True)) (exampleEnv True) ''argument'' False None
          None (Some TextMode) False (newParser (toks [''{'', ''a'', ''}'']))))
     = pmode (newParser (toks [''{'', ''a'', ''}''])) \<and>
   fst (parseGroup (Parser 10 (exampleEnv True)) (exampleEnv True) ''argument'' False None None
          (Some TextMode) True (newParser (toks ['' '', bs # ''foo''])))
     = Inl (ParseError (''Undefined control sequence: '' @ bs # ''foo'')
              (Some (Token (bs # ''foo'') None))) \<and>
   pmode (snd (parseGroup (Parser 10 (exampleEnv True)) (exampleEnv True) ''argument'' False None
          None (Some TextMode) True (newParser (toks ['' '', bs # ''foo''])))) = TextMode \<and>
   parseGroup (Parser 10 (exampleEnv True)) (exampleEnv True) ''argument'' False None
          None None True (snd (switchMode TextMode (newParser (toks ['' '', bs # ''foo'']))))
     = parseGroup (Parser 10 (exampleEnv True)) (exampleEnv True) ''argument'' False None
          None (Some TextMode) True (newParser (toks ['' '', bs # ''foo'']))"
proof -
  let ?P = "Parser 10 (exampleEnv True)"
  let ?env = "exampleEnv True"
  let ?st = "newParser (toks [''{'', ''a'', ''}''])"
  let ?run = "parseGroup ?P ?env ''argument'' False None None (Some TextMode) False ?st"
  let ?st2 = "newParser (toks ['' '', bs # ''foo''])"
  let ?bad = "parseGroup ?P ?env ''argument'' False None None (Some TextMode) True ?st2"
  let ?tok = "Token (bs # ''foo'') None"
  let ?s1 = "snd (fetch_st (skipSpaces True (snd (switchMode TextMode ?st2))))"
  let ?e = "ParseError (''Undefined control sequence: '' @ tok_text ?tok) (Some ?tok)"
  have val: "fst ?run
      = Inr (Some (OrdGroup TextMode None [Symbol ''textord'' TextMode None ''a''] False))"
    by (simp add: prim_eval regex_eval parser_eval env_eval
        cong: bnd_cong_weak bnd_res_cong_weak thn_cong_weak)
  then have run: "?run
      = (Inr (Some (OrdGroup TextMode None [Symbol ''textord'' TextMode None ''a''] False)),
         snd ?run)"
    by (simp add: prod_eq_iff)
  have hyp: "throwOnError (settings ?env) \<and>
      fetch_st (skipSpaces True (snd (switchMode TextMode ?st2))) = (?tok, ?s1) \<and>
      undefinedCs ?env TextMode ?tok"
    by (simp add: prim_eval regex_eval env_eval newParser_def skipSpaces_def undefinedCs_def
        toks_def)
  note inst1 = parseGroup_restores_mode [where P = ?P and env = ?env and name = "''argument''"
      and optional = False and greed = None and breakOn = None and m = TextMode
      and consumeSp = False and st = ?st and tok = ?tok and ?st1.0 = ?s1]
  note inst2 = parseGroup_restores_mode [where P = ?P and env = ?env and name = "''argument''"
      and optional = False and greed = None and breakOn = None and m = TextMode
      and consumeSp = True and st = ?st2 and tok = ?tok and ?st1.0 = ?s1]
  from inst1 run have mode: "pmode (snd ?run) = pmode ?st" by blast
  from inst2 hyp have bad: "?bad = (Inl ?e, ?s1)" and m: "pmode ?s1 = TextMode" by blast+
  from inst2 bad
  have "parseGroup ?P ?env ''argument'' False None None None True (snd (switchMode TextMode ?st2))
      = (Inl ?e, ?s1)"
    by blast
  with bad have same: "parseGroup ?P ?env ''argument'' False None None None True
      (snd (switchMode TextMode ?st2)) = ?bad"
    by simp
  from val mode bad m same show ?thesis by simp
qed


text \<open>
  C2 as stated fails on an error path: the group \<open>{a\<close> is not closed, \<open>parseGroup\<close> was asked
  to parse it in text mode, \<open>expect\<close> raises, and the parser is left in text mode while it
  was in math mode before the call.
\<close>

theorem parseGroup_error_leaves_mode:
  "fst (parseGroup (Parser 10 (exampleEnv True)) (exampleEnv True) ''argument'' False None None
          (Some TextMode) False (newParser (toks [''{'', ''a''])))
     = Inl (ParseError (''Expected '' @ q @ ''}'' @ q @ '', got '' @ q @ ''EOF'' @ q)
              (Some eofToken)) \<and>
   pmode (snd (parseGroup (Parser 10 (exampleEnv True)) (exampleEnv True) ''argument'' False None
          None (Some TextMode) False (newParser (toks [''{'', ''a'']))))
     = TextMode \<and>
   pmode (newParser (toks [''{'', ''a''])) = MathMode"
  by (simp add: prim_eval regex_eval parser_eval env_eval
      cong: bnd_cong_weak bnd_res_cong_weak thn_cong_weak)


text \<open>
  \<open>parseStringGroup\<close> never writes the catcode table.
\<close>

lemma keeps_ret: "keeps (ret x)" and keeps_throw: "keeps (throw e)"
  by (simp_all add: keeps_def ret_def throw_def)

lemma keeps_bnd: "keeps m \<Longrightarrow> (\<And>a. keeps (f a)) \<Longrightarrow> keeps (bnd m f)"
  unfolding keeps_def bnd_def bnd_res_def
  by (auto split: prod.splits sum.splits) (metis snd_conv)+

lemma keeps_thn: "keeps m \<Longrightarrow> keeps k \<Longrightarrow> keeps (thn m k)"
  by (simp add: thn_def keeps_bnd)

lemma keeps_if: "keeps a \<Longrightarrow> keeps b \<Longrightarrow> keeps (if c then a else b)"
  by simp

lemma fetch_st_catcodes: "catcodes (gullet (snd (fetch_st st))) = catcodes (gullet st)"
  by (simp add: fetch_st_def expandNextToken_def split: option.splits list.splits)

lemma keeps_prims: "keeps fetch" "keeps consume" "keeps (setMode m)" "keeps getMode"
  by (simp_all add: keeps_def fetch_def consume_def consume_st_def setMode_def getMode_def
      fetch_st_catcodes)

lemma keeps_expect: "keeps (expect t c)"
  by (simp add: expect_def whenM_def keeps_bnd keeps_prims keeps_ret keeps_throw)

lemma stringLoop_catcodes:
  "catcodes (gullet (snd (stringLoop gb ge raw mn ft lt str n st))) = catcodes (gullet st)"
proof (induction gb ge raw mn ft lt str n st rule: stringLoop.induct)
  case (1 gb ge raw mn ft lt str n st)
  obtain t st1 where f: "fetch_st st = (t, st1)" by (cases "fetch_st st")
  have c1: "catcodes (gullet st1) = catcodes (gullet st)"
    using fetch_st_catcodes [of st] f by simp
  show ?case
  proof (cases "(tok_text t \<noteq> ge \<or> raw \<and> 0 < n) \<and> tok_text t \<noteq> ''EOF''")
    case True
    then show ?thesis
      using "1.IH" [OF f [symmetric]] f c1
      by (subst stringLoop.simps) (auto simp: consume_st_def)
  next
    case False
    then show ?thesis
      using f c1 by (subst stringLoop.simps) auto
  qed
qed

lemma keeps_stringLoop: "keeps (stringLoop gb ge raw mn ft lt str n)"
  by (simp add: keeps_def stringLoop_catcodes)

lemma keeps_case_prod: "(\<And>a b. keeps (f a b)) \<Longrightarrow> keeps (case p of (a, b) \<Rightarrow> f a b)"
  by (cases p) simp

lemma keeps_parseStringGroup: "keeps (parseStringGroup mn optional raw)"
  unfolding parseStringGroup_def
  by (intro keeps_bnd keeps_thn keeps_if keeps_case_prod keeps_prims keeps_expect keeps_ret
      keeps_stringLoop)


text \<open>
  C3, as amended. \<open>parseUrlGroup\<close> parses the raw string group in a state where the catcode
  of \<open>%\<close> is 13; when the string group raises, \<open>parseUrlGroup\<close> raises the same error and
  the catcode of \<open>%\<close> is still 13; when \<open>parseUrlGroup\<close> returns normally, the catcode of
  \<open>%\<close> is 14.
\<close>

theorem parseUrlGroup_catcode:
  "catcodes (gullet (snd (setCatcode CHR ''%'' 13 st))) CHR ''%'' = Some 13 \<and>
   (\<forall>e st1. parseStringGroup ''url'' optional True (snd (setCatcode CHR ''%'' 13 st)) = (Inl e, st1)
      \<longrightarrow> parseUrlGroup optional consumeSp st = (Inl e, st1) \<and>
          catcodes (gullet st1) CHR ''%'' = Some 13) \<and>
   (\<forall>r st'. parseUrlGroup optional consumeSp st = (Inr r, st')
      \<longrightarrow> catcodes (gullet st') CHR ''%'' = Some 14)"
proof (intro conjI allI impI)
  show c13: "catcodes (gullet (snd (setCatcode CHR ''%'' 13 st))) CHR ''%'' = Some 13"
    by (simp add: setCatcode_def)
  fix e st1
  assume err: "parseStringGroup ''url'' optional True (snd (setCatcode CHR ''%'' 13 st)) = (Inl e, st1)"
  then show "parseUrlGroup optional consumeSp st = (Inl e, st1)"
    by (simp add: parseUrlGroup_def thn_apply bnd_def setCatcode_def bnd_res_simps)
  have "catcodes (gullet st1) = catcodes (gullet (snd (setCatcode CHR ''%'' 13 st)))"
    using keeps_parseStringGroup [of "''url''" optional True] err
    by (auto simp: keeps_def dest: spec [of _ "snd (setCatcode CHR ''%'' 13 st)"])
  then show "catcodes (gullet st1) CHR ''%'' = Some 13"
    using c13 by simp
next
  fix r st'
  assume "parseUrlGroup optional consumeSp st = (Inr r, st')"
  then show "catcodes (gullet st') CHR ''%'' = Some 14"
    by (auto simp: parseUrlGroup_def setCatcode_def ret_def getMode_def
        dest!: bnd_Inr thn_Inr split: option.splits)
qed



text \<open>
  C3 as stated fails on an error path: in the unclosed group \<open>{a\<close> the string group raises
  at the end of the input, and the catcode of \<open>%\<close> is left at 13.
\<close>

theorem parseUrlGroup_error_leaves_catcode:
  "fst (parseUrlGroup False False (newParser (toks [''{'', ''a''])))
     = Inl (ParseError ''Unexpected end of input in url'' (Some (Token ''a'' None))) \<and>
   catcodes (gullet (snd (parseUrlGroup False False (newParser (toks [''{'', ''a'']))))) CHR ''%''
     = Some 13"
  by (simp add: prim_eval parser_eval env_eval
      cong: bnd_cong_weak bnd_res_cong_weak thn_cong_weak)

text \<open>
  The theorem at the group \<open>{a}\<close>, where \<open>parseUrlGroup\<close> returns the url \<open>a\<close>, and at the
  unclosed group \<open>{\<close>, where the string group raises.
\<close>

theorem parseUrlGroup_catcode_witness:
  "fst (parseUrlGroup False False (newParser (toks [''{'', ''a'', ''}''])))
     = Inr (Some (Url MathMode ''a'')) \<and>
   catcodes (gullet (snd (parseUrlGroup False False (newParser (toks [''{'', ''a'', ''}''])))))
     CHR ''%'' = Some 14 \<and>
   fst (parseStringGroup ''url'' False True
          (snd (setCatcode CHR ''%'' 13 (newParser (toks [''{''])))))
     = Inl (ParseError ''Unexpected end of input in url'' (Some (Token [] None))) \<and>
   catcodes (gullet (snd (parseUrlGroup False False (newParser (toks [''{''])))))
     CHR ''%'' = Some 13"
proof -
  let ?ok = "parseUrlGroup False False (newParser (toks [''{'', ''a'', ''}'']))"
  let ?st13 = "snd (setCatcode CHR ''%'' 13 (newParser (toks [''{''])))"
  let ?bad = "parseStringGroup ''url'' False True ?st13"
  have ok: "fst ?ok = Inr (Some (Url MathMode ''a''))"
    by (simp add: prim_eval parser_eval env_eval
        cong: bnd_cong_weak bnd_res_cong_weak thn_cong_weak)
  then have ok': "?ok = (Inr (Some (Url MathMode ''a'')), snd ?ok)"
    by (simp add: prod_eq_iff)
  have bad: "fst ?bad = Inl (ParseError ''Unexpected end of input in url'' (Some (Token [] None)))"
    by (simp add: prim_eval parser_eval env_eval
        cong: bnd_cong_weak bnd_res_cong_weak thn_cong_weak)
  then have bad': "?bad
      = (Inl (ParseError ''Unexpected end of input in url'' (Some (Token [] None))), snd ?bad)"
    by (simp add: prod_eq_iff)
  note err_inst = parseUrlGroup_catcode [of "newParser (toks [''{''])" False False]
  note ok_inst = parseUrlGroup_catcode [of "newParser (toks [''{'', ''a'', ''}''])" False False]
  from err_inst bad' have "parseUrlGroup False False (newParser (toks [''{'']))
      = (Inl (ParseError ''Unexpected end of input in url'' (Some (Token [] None))), snd ?bad)"
    and "catcodes (gullet (snd ?bad)) CHR ''%'' = Some 13"
    by blast+
  moreover from ok_inst ok' have "catcodes (gullet (snd ?ok)) CHR ''%'' = Some 14"
    by blast
  ultimately show ?thesis using ok bad by simp
qed

section \<open>Parsing an undefined control sequence\<close>

text \<open>
  C4, as amended. \<open>formatUnsupportedCmd\<close> returns a color node with the configured error
  color around one text node whose body has one \<open>textord\<close> per character of the text, so
  as many children as the text has characters: four for \<open>\foo\<close>. With \<open>throwOnError\<close> off,
  every call of \<open>parseGroup\<close> for a group that is not optional (with or without a mode,
  whether or not it skips spaces, at any greediness: the call of \<open>parseAtom\<close>, of a
  script and of an argument) whose lookahead is an undefined control sequence returns that
  node, built in the mode of the group, and consumes the token. A call for an optional
  group returns nothing there and consumes nothing, so the control sequence is left to
  the next group.
\<close>

theorem unsupported_cmd:
  "formatUnsupportedCmd env text st = (Inr (unsupportedNode env (pmode st) text), st) \<and>
   unsupportedNode env m text
     = Color m (errorColor (settings env))
         [TextNode m (map (\<lambda>c. Symbol ''textord'' TextMode None [c]) text)] \<and>
   length (textChildren (unsupportedNode env m text)) = length text \<and>
   length (textChildren (unsupportedNode env m (bs # ''foo''))) = 4 \<and>
   (\<not> throwOnError (settings env) \<and>
    fetch_st (skipSpaces consumeSp (inMode mode st)) = (tok, st1) \<and>
    undefinedCs env (pmode (inMode mode st)) tok
    \<longrightarrow> parseGroup P env name False greed breakOn mode consumeSp st
          = (Inr (Some (unsupportedNode env (pmode (inMode mode st)) (tok_text tok))),
             backTo mode st (consume_st st1))) \<and>
   (fetch_st (skipSpaces consumeSp (inMode mode st)) = (tok, st1) \<and>
    take 1 (tok_text tok) = [bs]
    \<longrightarrow> parseGroup P env name True greed breakOn mode consumeSp st
          = (Inr None, backTo mode st st1))"
proof (intro conjI impI)
  show "formatUnsupportedCmd env text st = (Inr (unsupportedNode env (pmode st) text), st)"
    by (simp add: formatUnsupportedCmd_def bnd_def getMode_def bnd_res_simps ret_def
        unsupportedNode_def)
next
  assume a: "\<not> throwOnError (settings env) \<and>
    fetch_st (skipSpaces consumeSp (inMode mode st)) = (tok, st1) \<and>
    undefinedCs env (pmode (inMode mode st)) tok"
  then have fs: "fetch_st (skipSpaces consumeSp (inMode mode st)) = (tok, st1)"
    and u: "undefinedCs env (pmode (inMode mode st)) tok"
    by blast+
  from parseGroup_undefined [OF fs u, of P name greed breakOn] a
  show "parseGroup P env name False greed breakOn mode consumeSp st
          = (Inr (Some (unsupportedNode env (pmode (inMode mode st)) (tok_text tok))),
             backTo mode st (consume_st st1))"
    by simp
next
  assume "fetch_st (skipSpaces consumeSp (inMode mode st)) = (tok, st1) \<and>
    take 1 (tok_text tok) = [bs]"
  then show "parseGroup P env name True greed breakOn mode consumeSp st
          = (Inr None, backTo mode st st1)"
    by (simp add: parseGroup_optional_cs)
qed (simp_all add: unsupportedNode_def)


text \<open>
  The theorem at the undefined control sequence \<open>\foo\<close>, with \<open>throwOnError\<close> off: as the
  argument of a function that is parsed in text mode after a space, and in the place of
  an optional argument; and the parse of \<open>x^\foo\<close>, where it is the superscript.
\<close>

theorem unsupported_cmd_witness:
  "parseGroup (Parser 5 (exampleEnv False)) (exampleEnv False) ''argument'' False (Some 1) None
       (Some TextMode) True (newParser (toks ['' '', bs # ''foo'']))
     = (Inr (Some (Color TextMode ''#cc0000''
         [TextNode TextMode
            [Symbol ''textord'' TextMode None [bs], Symbol ''textord'' TextMode None ''f'',
             Symbol ''textord'' TextMode None ''o'', Symbol ''textord'' TextMode None ''o'']])),
        newParser []) \<and>
   parseGroup (Parser 5 (exampleEnv False)) (exampleEnv False) ''argument'' True (Some 1) None
       None False (newParser (toks [bs # ''foo'']))
     = (Inr None, (newParser [])\<lparr>nextToken := Some (Token (bs # ''foo'') None)\<rparr>) \<and>
   fst (parse (Parser 20 (exampleEnv False)) (exampleEnv False)
          (newParser (toks [''x'', ''^'', bs # ''foo''])))
     = Inr [SupSub MathMode (Some (Symbol ''mathord'' MathMode None ''x''))
              (Some (Color MathMode ''#cc0000''
                 [TextNode MathMode
                    [Symbol ''textord'' TextMode None [bs], Symbol ''textord'' TextMode None ''f'',
                     Symbol ''textord'' TextMode None ''o'',
                     Symbol ''textord'' TextMode None ''o'']]))
              None]"
proof -
  let ?P = "Parser 5 (exampleEnv False)"
  let ?env = "exampleEnv False"
  let ?tok = "Token (bs # ''foo'') None"
  let ?st = "newParser (toks ['' '', bs # ''foo''])"
  let ?s1 = "snd (fetch_st (skipSpaces True (inMode (Some TextMode) ?st)))"
  let ?st' = "newParser (toks [bs # ''foo''])"
  let ?s1' = "snd (fetch_st (skipSpaces False (inMode None ?st')))"
  have hyp: "\<not> throwOnError (settings ?env) \<and>
      fetch_st (skipSpaces True (inMode (Some TextMode) ?st)) = (?tok, ?s1) \<and>
      undefinedCs ?env (pmode (inMode (Some TextMode) ?st)) ?tok"
    by (simp add: prim_eval regex_eval env_eval newParser_def skipSpaces_def undefinedCs_def
        inMode_def toks_def)
  have hyp': "fetch_st (skipSpaces False (inMode None ?st')) = (?tok, ?s1') \<and>
      take 1 (tok_text ?tok) = [bs]"
    by (simp add: prim_eval newParser_def skipSpaces_def inMode_def toks_def)
  note inst = unsupported_cmd [where P = ?P and env = ?env and name = "''argument''"
      and greed = "Some 1" and breakOn = None and mode = "Some TextMode" and consumeSp = True
      and st = ?st and tok = ?tok and ?st1.0 = ?s1]
  note inst' = unsupported_cmd [where P = ?P and env = ?env and name = "''argument''"
      and greed = "Some 1" and breakOn = None and mode = None and consumeSp = False
      and st = ?st' and tok = ?tok and ?st1.0 = ?s1']
  from inst hyp
  have "parseGroup ?P ?env ''argument'' False (Some 1) None (Some TextMode) True ?st
      = (Inr (Some (unsupportedNode ?env (pmode (inMode (Some TextMode) ?st)) (tok_text ?tok))),
         backTo (Some TextMode) ?st (consume_st ?s1))"
    by blast
  then have one: "parseGroup ?P ?env ''argument'' False (Some 1) None (Some TextMode) True ?st
     = (Inr (Some (Color TextMode ''#cc0000''
         [TextNode TextMode
            [Symbol ''textord'' TextMode None [bs], Symbol ''textord'' TextMode None ''f'',
             Symbol ''textord'' TextMode None ''o'', Symbol ''textord'' TextMode None ''o'']])),
        newParser [])"
    by (simp add: prim_eval env_eval newParser_def skipSpaces_def inMode_def backTo_def
        unsupportedNode_def toks_def)
  from inst' hyp'
  have "parseGroup ?P ?env ''argument'' True (Some 1) None None False ?st'
      = (Inr None, backTo None ?st' ?s1')"
    by blast
  then have two: "parseGroup ?P ?env ''argument'' True (Some 1) None None False ?st'
     = (Inr None, (newParser [])\<lparr>nextToken := Some ?tok\<rparr>)"
    by (simp add: prim_eval newParser_def skipSpaces_def inMode_def backTo_def toks_def)
  have three: "fst (parse (Parser 20 ?env) ?env (newParser (toks [''x'', ''^'', bs # ''foo''])))
     = Inr [SupSub MathMode (Some (Symbol ''mathord'' MathMode None ''x''))
              (Some (Color MathMode ''#cc0000''
                 [TextNode MathMode
                    [Symbol ''textord'' TextMode None [bs], Symbol ''textord'' TextMode None ''f'',
                     Symbol ''textord'' TextMode None ''o'',
                     Symbol ''textord'' TextMode None ''o'']]))
              None]"
    by (simp add: prim_eval regex_eval parser_eval env_eval
        cong: bnd_cong_weak bnd_res_cong_weak thn_cong_weak)
  from one two three show ?thesis by simp
qed

text \<open>
  C4 as stated fails in its last part: parsing \<open>\foo\<close> gives a node with four \<open>textord\<close>
  children (the backslash, \<open>f\<close>, \<open>o\<close>, \<open>o\<close>), not six.
\<close>

theorem unsupported_cmd_foo_four_children:
  "fst (parse (Parser 10 (exampleEnv False)) (exampleEnv False) (newParser (toks [bs # ''foo''])))
     = Inr [Color MathMode ''#cc0000''
         [TextNode MathMode
            [Symbol ''textord'' TextMode None [bs], Symbol ''textord'' TextMode None ''f'',
             Symbol ''textord'' TextMode None ''o'', Symbol ''textord'' TextMode None ''o'']]] \<and>
   length (textChildren (Color MathMode ''#cc0000''
         [TextNode MathMode
            [Symbol ''textord'' TextMode None [bs], Symbol ''textord'' TextMode None ''f'',
             Symbol ''textord'' TextMode None ''o'', Symbol ''textord'' TextMode None ''o'']]))
     \<noteq> 6"
  by (simp add: prim_eval regex_eval parser_eval env_eval
      cong: bnd_cong_weak bnd_res_cong_weak thn_cong_weak)

section \<open>Infix operators\<close>

lemma infixScan_none:
  "\<forall>x \<in> set xs. \<not> isInfixNode x \<Longrightarrow> infixScan xs i ov f = Inr (ov, f)"
  by (induction xs arbitrary: i) (auto simp: isInfixNode_def)

lemma infixScan_first:
  "\<forall>x \<in> set pre. \<not> isInfixNode x \<Longrightarrow> isInfixNode x \<Longrightarrow>
   infixScan (pre @ x # post) i (- 1) f
     = infixScan post (i + length pre + 1) (int (i + length pre)) (node_replaceWith x)"
  by (induction pre arbitrary: i) (auto simp: isInfixNode_def add.assoc)

lemma infixScan_second:
  "\<forall>x \<in> set pre. \<not> isInfixNode x \<Longrightarrow> isInfixNode x \<Longrightarrow> ov \<noteq> - 1 \<Longrightarrow>
   infixScan (pre @ x # post) i ov f = Inl (ParseError infixMessage (node_token x))"
  by (induction pre arbitrary: i) (auto simp: isInfixNode_def infixMessage_def)

lemma two_infix_split:
  assumes "1 < length (filter isInfixNode body)"
  shows "\<exists>pre x mid y post. body = pre @ x # mid @ y # post \<and>
           (\<forall>n \<in> set pre. \<not> isInfixNode n) \<and> isInfixNode x \<and>
           (\<forall>n \<in> set mid. \<not> isInfixNode n) \<and> isInfixNode y"
proof -
  from assms obtain x y rest where fl: "filter isInfixNode body = x # y # rest"
    by (cases "filter isInfixNode body"; cases "tl (filter isInfixNode body)") auto
  then obtain pre vs where b: "body = pre @ x # vs" "\<forall>n \<in> set pre. \<not> isInfixNode n"
    "isInfixNode x" "y # rest = filter isInfixNode vs"
    by (auto simp: filter_eq_Cons_iff)
  from b(4) obtain mid post where v: "vs = mid @ y # post" "\<forall>n \<in> set mid. \<not> isInfixNode n"
    "isInfixNode y"
    by (auto simp: filter_eq_Cons_iff dest!: sym [of "y # rest"])
  show ?thesis using b v by blast
qed

lemma handleInfixNodes_two:
  assumes "1 < length (filter isInfixNode body)"
  shows "\<exists>tok. handleInfixNodes P env body st = (Inl (ParseError infixMessage tok), st)"
proof -
  from two_infix_split [OF assms] obtain pre x mid y post where
    b: "body = pre @ x # mid @ y # post" "\<forall>n \<in> set pre. \<not> isInfixNode n" "isInfixNode x"
       "\<forall>n \<in> set mid. \<not> isInfixNode n" "isInfixNode y"
    by blast
  have "infixScan body 0 (- 1) None = Inl (ParseError infixMessage (node_token y))"
    unfolding b(1) using b(2-5)
    by (simp add: infixScan_first infixScan_second)
  then show ?thesis
    by (simp add: handleInfixNodes_def bnd_def bnd_res_simps liftE_def)
qed

lemma one_infix_scan:
  assumes "k < length body" "isInfixNode (body ! k)"
    "\<forall>j < length body. j \<noteq> k \<longrightarrow> \<not> isInfixNode (body ! j)"
  shows "infixScan body 0 (- 1) None = Inr (int k, node_replaceWith (body ! k))"
proof -
  have split: "body = take k body @ body ! k # drop (Suc k) body"
    using assms(1) by (simp add: id_take_nth_drop)
  have pre: "\<forall>n \<in> set (take k body). \<not> isInfixNode n"
    using assms(1,3) by (auto simp: in_set_conv_nth)
  have post: "\<forall>n \<in> set (drop (Suc k) body). \<not> isInfixNode n"
    using assms(1,3) by (auto simp: in_set_conv_nth)
  have "infixScan body 0 (- 1) None
      = infixScan (take k body @ body ! k # drop (Suc k) body) 0 (- 1) None"
    using split by simp
  also have "\<dots> = infixScan (drop (Suc k) body) (0 + length (take k body) + 1)
      (int (0 + length (take k body))) (node_replaceWith (body ! k))"
    using pre assms(2) by (rule infixScan_first)
  also have "\<dots> = Inr (int k, node_replaceWith (body ! k))"
    using post assms(1) by (simp add: infixScan_none min_def)
  finally show ?thesis .
qed


text \<open>
  C5, as amended. When the list has exactly one infix node, at index \<open>k\<close>, and its
  \<open>replaceWith\<close> is not the empty string, \<open>handleInfixNodes\<close> calls the function of that
  name with the two sides (and the infix node between them when the name is
  \<open>\\abovefrac\<close>), each side reused when it is a single \<open>ordgroup\<close> and wrapped in a new
  \<open>ordgroup\<close> otherwise (\<open>infixSide\<close>), and returns the list of the one node the call
  returns; an error of the call is the error of \<open>handleInfixNodes\<close>. When its
  \<open>replaceWith\<close> is the empty string or is missing, no function is called and the list is
  returned as it is.
\<close>

theorem handleInfixNodes_one:
  assumes "k < length body" "node_type (body ! k) = ''infix''"
    and "\<forall>j < length body. j \<noteq> k \<longrightarrow> node_type (body ! j) \<noteq> ''infix''"
  shows "(node_replaceWith (body ! k) = Some f \<and> f \<noteq> [] \<longrightarrow>
            handleInfixNodes P env body st
              = bnd (callFunction P env f
                       (if f = abovefrac
                        then [infixSide (pmode st) (take k body), body ! k,
                              infixSide (pmode st) (drop (k + 1) body)]
                        else [infixSide (pmode st) (take k body),
                              infixSide (pmode st) (drop (k + 1) body)])
                       [] None None)
                  (\<lambda>n. ret [n]) st) \<and>
         (node_replaceWith (body ! k) = None \<or> node_replaceWith (body ! k) = Some [] \<longrightarrow>
            handleInfixNodes P env body st = (Inr body, st))"
proof -
  have scan: "infixScan body 0 (- 1) None = Inr (int k, node_replaceWith (body ! k))"
    using one_infix_scan [of k body] assms by (simp add: isInfixNode_def)
  show ?thesis
  proof (intro conjI impI)
    assume "node_replaceWith (body ! k) = Some f \<and> f \<noteq> []"
    with scan show "handleInfixNodes P env body st
              = bnd (callFunction P env f
                       (if f = abovefrac
                        then [infixSide (pmode st) (take k body), body ! k,
                              infixSide (pmode st) (drop (k + 1) body)]
                        else [infixSide (pmode st) (take k body),
                              infixSide (pmode st) (drop (k + 1) body)])
                       [] None None)
                  (\<lambda>n. ret [n]) st"
      by (simp add: handleInfixNodes_def bnd_def bnd_res_simps liftE_def getMode_def)
  next
    assume "node_replaceWith (body ! k) = None \<or> node_replaceWith (body ! k) = Some []"
    with scan show "handleInfixNodes P env body st = (Inr body, st)"
      by (auto simp: handleInfixNodes_def bnd_def bnd_res_simps liftE_def ret_def)
  qed
qed


text \<open>
  The theorem at the list \<open>a\<close>, infix (\<open>\frac\<close>), \<open>{b}\<close>: the numerator is wrapped, the
  denominator, a single \<open>ordgroup\<close>, is reused; and at the list of an infix node without
  a name and \<open>c\<close>, which is returned as it is.
\<close>

theorem handleInfixNodes_one_witness:
  "handleInfixNodes (Parser 3 (exampleEnv True)) (exampleEnv True)
     [Symbol ''mathord'' MathMode None ''a'', Infix MathMode (bs # ''frac'') None,
      OrdGroup MathMode None [Symbol ''mathord'' MathMode None ''b''] False] (newParser [])
   = (Inr [Other ''genfrac'' MathMode
             [OrdGroup MathMode None [Symbol ''mathord'' MathMode None ''a''] False,
              OrdGroup MathMode None [Symbol ''mathord'' MathMode None ''b''] False]],
      newParser []) \<and>
   handleInfixNodes (Parser 3 (exampleEnv True)) (exampleEnv True)
     [Infix MathMode [] None, Symbol ''mathord'' MathMode None ''c''] (newParser [])
   = (Inr [Infix MathMode [] None, Symbol ''mathord'' MathMode None ''c''], newParser [])"
proof -
  let ?body = "[Symbol ''mathord'' MathMode None ''a'', Infix MathMode (bs # ''frac'') None,
      OrdGroup MathMode None [Symbol ''mathord'' MathMode None ''b''] False]"
  let ?bare = "[Infix MathMode [] None, Symbol ''mathord'' MathMode None ''c'']"
  have others: "\<forall>j < length ?body. j \<noteq> 1 \<longrightarrow> node_type (?body ! j) \<noteq> ''infix''"
    by (auto simp: less_Suc_eq)
  have others': "\<forall>j < length ?bare. j \<noteq> 0 \<longrightarrow> node_type (?bare ! j) \<noteq> ''infix''"
    by (auto simp: less_Suc_eq)
  have "handleInfixNodes (Parser 3 (exampleEnv True)) (exampleEnv True) ?body (newParser [])
     = bnd (callFunction (Parser 3 (exampleEnv True)) (exampleEnv True) (bs # ''frac'')
              (if bs # ''frac'' = abovefrac
               then [infixSide (pmode (newParser [])) (take 1 ?body), ?body ! 1,
                     infixSide (pmode (newParser [])) (drop (1 + 1) ?body)]
               else [infixSide (pmode (newParser [])) (take 1 ?body),
                     infixSide (pmode (newParser [])) (drop (1 + 1) ?body)])
              [] None None)
         (\<lambda>n. ret [n]) (newParser [])"
    using handleInfixNodes_one [where k = 1 and body = ?body and f = "bs # ''frac''"
        and P = "Parser 3 (exampleEnv True)" and env = "exampleEnv True" and st = "newParser []"]
      others
    by (simp add: bs_def)
  then have one: "handleInfixNodes (Parser 3 (exampleEnv True)) (exampleEnv True) ?body
      (newParser [])
   = (Inr [Other ''genfrac'' MathMode
             [OrdGroup MathMode None [Symbol ''mathord'' MathMode None ''a''] False,
              OrdGroup MathMode None [Symbol ''mathord'' MathMode None ''b''] False]],
      newParser [])"
    by (simp add: prim_eval parser_eval env_eval
        cong: bnd_cong_weak bnd_res_cong_weak thn_cong_weak)
  have none: "handleInfixNodes (Parser 3 (exampleEnv True)) (exampleEnv True) ?bare
      (newParser []) = (Inr ?bare, newParser [])"
    using handleInfixNodes_one [where k = 0 and body = ?bare
        and P = "Parser 3 (exampleEnv True)" and env = "exampleEnv True" and st = "newParser []"]
      others'
    by simp
  from one none show ?thesis by simp
qed

text \<open>
  C5 as stated fails when the one infix node has the empty string as \<open>replaceWith\<close>: the
  test \<open>overIndex !== -1 && funcName\<close> is false, no function is called, and the list is
  returned as it is.
\<close>

theorem handleInfixNodes_empty_name:
  "handleInfixNodes (Parser 3 (exampleEnv True)) (exampleEnv True)
     [Symbol ''mathord'' MathMode None ''a'', Infix MathMode [] None,
      Symbol ''mathord'' MathMode None ''b''] (newParser [])
   = (Inr [Symbol ''mathord'' MathMode None ''a'', Infix MathMode [] None,
           Symbol ''mathord'' MathMode None ''b''], newParser [])"
  by (simp add: prim_eval parser_eval env_eval
      cong: bnd_cong_weak bnd_res_cong_weak thn_cong_weak)

text \<open>
  C6. A list with more than one node of type \<open>infix\<close> makes \<open>handleInfixNodes\<close> raise
  \<open>only one infix operator per group\<close>, and the state is as it was; nothing catches the
  error, and parsing \<open>a \over b \over c\<close> fails with that message.
\<close>

theorem only_one_infix:
  "(1 < length (filter (\<lambda>n. node_type n = ''infix'') body) \<longrightarrow>
      (\<exists>tok. handleInfixNodes P env body st
         = (Inl (ParseError ''only one infix operator per group'' tok), st))) \<and>
   fst (parse (Parser 20 (exampleEnv True)) (exampleEnv True)
          (newParser (toks [''a'', bs # ''over'', ''b'', bs # ''over'', ''c''])))
     = Inl (ParseError ''only one infix operator per group''
              (Some (Token (bs # ''over'') None)))"
proof (intro conjI impI)
  assume "1 < length (filter (\<lambda>n. node_type n = ''infix'') body)"
  then have "1 < length (filter isInfixNode body)"
    by (simp add: isInfixNode_def [abs_def])
  from handleInfixNodes_two [OF this, of P env st]
  show "\<exists>tok. handleInfixNodes P env body st
         = (Inl (ParseError ''only one infix operator per group'' tok), st)"
    by (simp add: infixMessage_def)
next
  show "fst (parse (Parser 20 (exampleEnv True)) (exampleEnv True)
          (newParser (toks [''a'', bs # ''over'', ''b'', bs # ''over'', ''c''])))
     = Inl (ParseError ''only one infix operator per group''
              (Some (Token (bs # ''over'') None)))"
    by (simp add: prim_eval regex_eval parser_eval env_eval
        cong: bnd_cong_weak bnd_res_cong_weak thn_cong_weak)
qed

text \<open>The theorem at a list with two infix nodes: the error names the second one.\<close>

theorem only_one_infix_witness:
  "fst (handleInfixNodes (Parser 3 (exampleEnv True)) (exampleEnv True)
     [Symbol ''mathord'' MathMode None ''a'',
      Infix MathMode (bs # ''frac'') (Some (Token (bs # ''over'') (Some (1, 6)))),
      Symbol ''mathord'' MathMode None ''b'',
      Infix MathMode (bs # ''frac'') (Some (Token (bs # ''over'') (Some (7, 12)))),
      Symbol ''mathord'' MathMode None ''c''] (newParser []))
   = Inl (ParseError ''only one infix operator per group''
            (Some (Token (bs # ''over'') (Some (7, 12)))))"
proof -
  let ?body = "[Symbol ''mathord'' MathMode None ''a'',
      Infix MathMode (bs # ''frac'') (Some (Token (bs # ''over'') (Some (1, 6)))),
      Symbol ''mathord'' MathMode None ''b'',
      Infix MathMode (bs # ''frac'') (Some (Token (bs # ''over'') (Some (7, 12)))),
      Symbol ''mathord'' MathMode None ''c'']"
  have "1 < length (filter (\<lambda>n. node_type n = ''infix'') ?body)" by simp
  with only_one_infix [of ?body "Parser 3 (exampleEnv True)" "exampleEnv True" "newParser []"]
  obtain tok where
    "handleInfixNodes (Parser 3 (exampleEnv True)) (exampleEnv True) ?body (newParser [])
       = (Inl (ParseError ''only one infix operator per group'' tok), newParser [])"
    by blast
  moreover have "fst (handleInfixNodes (Parser 3 (exampleEnv True)) (exampleEnv True) ?body
      (newParser []))
    = Inl (ParseError ''only one infix operator per group''
            (Some (Token (bs # ''over'') (Some (7, 12)))))"
    by (simp add: prim_eval parser_eval env_eval
        cong: bnd_cong_weak bnd_res_cong_weak thn_cong_weak)
  ultimately show ?thesis by simp
qed

text \<open>
  C1 fails on the code. In \<open>\over^2\<close> the atom parser takes the infix node as the base of
  a \<open>supsub\<close> node; \<open>handleInfixNodes\<close> looks at the types of the elements of the list
  only, so the node is neither rewritten nor refused, and the tree that \<open>parse\<close> returns
  contains it. In the script position the same function is refused: \<open>x^\over\<close> raises
  \<open>Got function '\over' with no arguments as superscript\<close>.
\<close>

theorem infix_survives_in_supsub:
  "fst (parse (Parser 20 (exampleEnv True)) (exampleEnv True)
          (newParser (toks [bs # ''over'', ''^'', ''2''])))
     = Inr [SupSub MathMode
              (Some (Infix MathMode (bs # ''frac'') (Some (Token (bs # ''over'') None))))
              (Some (Symbol ''textord'' MathMode None ''2'')) None] \<and>
   hasInfix (SupSub MathMode
              (Some (Infix MathMode (bs # ''frac'') (Some (Token (bs # ''over'') None))))
              (Some (Symbol ''textord'' MathMode None ''2'')) None) \<and>
   fst (parse (Parser 20 (exampleEnv True)) (exampleEnv True)
          (newParser (toks [''x'', ''^'', bs # ''over''])))
     = Inl (ParseError
              (''Got function '' @ q @ bs # ''over'' @ q @ '' with no arguments as superscript'')
              (Some (Token (bs # ''over'') None)))"
  by (simp add: prim_eval regex_eval parser_eval env_eval
      cong: bnd_cong_weak bnd_res_cong_weak thn_cong_weak)

section \<open>Superscripts, subscripts and primes\<close>

lemma collectPrimes_run:
  assumes "nextToken st = None" "stream (gullet st) @ [eofToken] = ps @ t # rest"
    "\<forall>p \<in> set ps. tok_text p = q" "tok_text t \<noteq> q"
  shows "collectPrimes prime acc st = (Inr (acc @ replicate (length ps) prime), afterRun st t rest)"
  using assms
proof (induction ps arbitrary: st acc)
  case Nil
  show ?case
  proof (cases "stream (gullet st)")
    case Nil
    with Nil.prems have "t = eofToken" "rest = []" by simp_all
    then show ?thesis
      using Nil.prems \<open>stream (gullet st) = []\<close>
      by (subst collectPrimes.simps)
        (simp add: fetch_st_def expandNextToken_def afterRun_def)
  next
    case (Cons a ts)
    with Nil.prems have "a = t" "rest = ts @ [eofToken]" by simp_all
    then show ?thesis
      using Nil.prems Cons
      by (subst collectPrimes.simps)
        (simp add: fetch_st_def expandNextToken_def afterRun_def)
  qed
next
  case (Cons p ps)
  from Cons.prems obtain ts where s: "stream (gullet st) = p # ts"
    "ts @ [eofToken] = ps @ t # rest"
    by (cases "stream (gullet st)") auto
  let ?st1 = "consume_st (snd (fetch_st st))"
  have f: "fetch_st st = (p, st\<lparr>gullet := (gullet st)\<lparr>stream := ts\<rparr>, nextToken := Some p\<rparr>)"
    using Cons.prems(1) s(1) by (simp add: fetch_st_def expandNextToken_def)
  have st1: "nextToken ?st1 = None" "stream (gullet ?st1) @ [eofToken] = ps @ t # rest"
    using f s(2) by (simp_all add: consume_st_def)
  have "collectPrimes prime acc st = collectPrimes prime (acc @ [prime]) ?st1"
    using f Cons.prems(3) by (subst collectPrimes.simps) simp
  also have "\<dots> = (Inr ((acc @ [prime]) @ replicate (length ps) prime), afterRun ?st1 t rest)"
    using Cons.prems(3,4) by (intro Cons.IH st1) simp_all
  also have "afterRun ?st1 t rest = afterRun st t rest"
    using f by (simp add: afterRun_def consume_st_def)
  finally show ?case by (simp add: replicate_app_Cons_same)
qed


text \<open>
  C8. The prime branch of the loop of \<open>parseAtom\<close> is \<open>parsePrimes\<close>. With the first prime
  as the lookahead and \<open>ps\<close> further primes before the next token \<open>t\<close>, it returns an
  \<open>ordgroup\<close> with one \<open>\prime\<close> textord per prime; when \<open>t\<close> is \<open>^\<close>, the group that
  \<open>handleSupSubscript\<close> parses is appended as the last element. The loop takes this branch
  on a prime when no superscript is set, and \<open>x''\<close> parses to the \<open>supsub\<close> of the spec.
\<close>

theorem primes_superscript:
  "(nextToken st = Some p0 \<and> stream (gullet st) @ [eofToken] = ps @ t # rest \<and>
    (\<forall>p \<in> set ps. tok_text p = q) \<and> tok_text t \<noteq> q \<longrightarrow>
      (tok_text t \<noteq> ''^'' \<longrightarrow>
         parsePrimes P st
           = (Inr (OrdGroup (pmode st) None
                     (replicate (Suc (length ps)) (primeNode (pmode st))) False),
              afterRun st t rest)) \<and>
      (tok_text t = ''^'' \<longrightarrow>
         parsePrimes P st
           = bnd (handleSupSubscript P ''superscript'') (\<lambda>g.
               bnd getMode (\<lambda>m.
                 ret (OrdGroup m None
                        (replicate (Suc (length ps)) (primeNode (pmode st)) @ [g]) False)))
               (afterRun st t rest))) \<and>
   (fetch_st (consumeSpaces_st st0) = (tk, st) \<and> tok_text tk = q \<longrightarrow>
      atomLoop P env base None sub st0
        = bnd (parsePrimes P) (\<lambda>g. pAtomLoop P base (Some g) sub) st) \<and>
   fst (parse (Parser 20 (exampleEnv True)) (exampleEnv True) (newParser (toks [''x'', q, q])))
     = Inr [SupSub MathMode (Some (Symbol ''mathord'' MathMode None ''x''))
              (Some (OrdGroup MathMode None [primeNode MathMode, primeNode MathMode] False))
              None]"
proof (intro conjI impI)
  assume a: "nextToken st = Some p0 \<and> stream (gullet st) @ [eofToken] = ps @ t # rest \<and>
    (\<forall>p \<in> set ps. tok_text p = q) \<and> tok_text t \<noteq> q"
  let ?st0 = "consume_st st"
  have run: "collectPrimes (primeNode (pmode st)) [primeNode (pmode st)] ?st0
      = (Inr ([primeNode (pmode st)] @ replicate (length ps) (primeNode (pmode st))),
         afterRun ?st0 t rest)"
    using a by (intro collectPrimes_run) (simp_all add: consume_st_def)
  have same: "afterRun ?st0 t rest = afterRun st t rest"
    by (simp add: afterRun_def consume_st_def)
  have f: "fetch (afterRun st t rest) = (Inr t, afterRun st t rest)"
    by (simp add: fetch_def fetch_st_def afterRun_def)
  have m: "pmode (afterRun st t rest) = pmode st"
    by (simp add: afterRun_def)
  {
    assume "tok_text t \<noteq> ''^''"
    then show "parsePrimes P st
           = (Inr (OrdGroup (pmode st) None
                     (replicate (Suc (length ps)) (primeNode (pmode st))) False),
              afterRun st t rest)"
      using run same f m
      by (simp add: parsePrimes_def bnd_def bnd_res_simps thn_apply getMode_def consume_def
          ret_def primeNode_def)
  }
  {
    assume "tok_text t = ''^''"
    then show "parsePrimes P st
           = bnd (handleSupSubscript P ''superscript'') (\<lambda>g.
               bnd getMode (\<lambda>m.
                 ret (OrdGroup m None
                        (replicate (Suc (length ps)) (primeNode (pmode st)) @ [g]) False)))
               (afterRun st t rest)"
      using run same f m
      by (simp add: parsePrimes_def bnd_def bnd_res_simps thn_apply getMode_def consume_def
          ret_def primeNode_def bnd_res_def split: prod.splits sum.splits)
  }
next
  assume "fetch_st (consumeSpaces_st st0) = (tk, st) \<and> tok_text tk = q"
  then show "atomLoop P env base None sub st0
        = bnd (parsePrimes P) (\<lambda>g. pAtomLoop P base (Some g) sub) st"
    by (simp add: atomLoop_def thn_apply consumeSpaces_def bnd_res_simps bnd_def fetch_def
        q_def bs_def)
next
  show "fst (parse (Parser 20 (exampleEnv True)) (exampleEnv True) (newParser (toks [''x'', q, q])))
     = Inr [SupSub MathMode (Some (Symbol ''mathord'' MathMode None ''x''))
              (Some (OrdGroup MathMode None [primeNode MathMode, primeNode MathMode] False))
              None]"
    by (simp add: prim_eval regex_eval parser_eval env_eval primeNode_def
        cong: bnd_cong_weak bnd_res_cong_weak thn_cong_weak)
qed



text \<open>
  The theorem at the two primes of \<open>x''\<close>, at \<open>''^2\<close>, and at the round of the loop that
  meets the primes.
\<close>

theorem primes_superscript_witness:
  "parsePrimes (Parser 5 (exampleEnv True)) (afterBase [q, q])
     = (Inr (OrdGroup MathMode None [primeNode MathMode, primeNode MathMode] False),
        afterRun (afterBase [q, q]) eofToken []) \<and>
   fst (parsePrimes (Parser 5 (exampleEnv True)) (afterBase [q, q, ''^'', ''2'']))
     = Inr (OrdGroup MathMode None
              [primeNode MathMode, primeNode MathMode, Symbol ''textord'' MathMode None ''2'']
              False) \<and>
   fst (atomLoop (Parser 5 (exampleEnv True)) (exampleEnv True)
          (Some (Symbol ''mathord'' MathMode None ''x'')) None None (newParser (toks [q, q])))
     = Inr (Some (Symbol ''mathord'' MathMode None ''x''),
            Some (OrdGroup MathMode None [primeNode MathMode, primeNode MathMode] False), None)"
proof -
  let ?P = "Parser 5 (exampleEnv True)"
  have h1: "nextToken (afterBase [q, q]) = Some (Token q None) \<and>
      stream (gullet (afterBase [q, q])) @ [eofToken] = [Token q None] @ eofToken # [] \<and>
      (\<forall>p \<in> set [Token q None]. tok_text p = q) \<and> tok_text eofToken \<noteq> q"
    by (simp add: afterBase_def newParser_def toks_def eofToken_def q_def)
  have n1: "tok_text eofToken \<noteq> ''^''" by (simp add: eofToken_def)
  have c1: "parsePrimes ?P (afterBase [q, q])
     = (Inr (OrdGroup (pmode (afterBase [q, q])) None
              (replicate (Suc (length [Token q None])) (primeNode (pmode (afterBase [q, q]))))
              False),
        afterRun (afterBase [q, q]) eofToken [])"
    using primes_superscript [where st = "afterBase [q, q]" and ps = "[Token q None]"
        and t = eofToken and rest = "[]" and P = ?P] h1 n1
    by blast
  have h2: "nextToken (afterBase [q, q, ''^'', ''2'']) = Some (Token q None) \<and>
      stream (gullet (afterBase [q, q, ''^'', ''2''])) @ [eofToken]
        = [Token q None] @ Token ''^'' None # [Token ''2'' None, eofToken] \<and>
      (\<forall>p \<in> set [Token q None]. tok_text p = q) \<and> tok_text (Token ''^'' None) \<noteq> q"
    by (simp add: afterBase_def newParser_def toks_def eofToken_def q_def)
  have c2: "parsePrimes ?P (afterBase [q, q, ''^'', ''2''])
     = bnd (handleSupSubscript ?P ''superscript'') (\<lambda>g.
         bnd getMode (\<lambda>m.
           ret (OrdGroup m None
                  (replicate (Suc (length [Token q None]))
                     (primeNode (pmode (afterBase [q, q, ''^'', ''2'']))) @ [g]) False)))
         (afterRun (afterBase [q, q, ''^'', ''2'']) (Token ''^'' None)
            [Token ''2'' None, eofToken])"
    using primes_superscript [where st = "afterBase [q, q, ''^'', ''2'']"
        and ps = "[Token q None]" and t = "Token ''^'' None"
        and rest = "[Token ''2'' None, eofToken]" and P = ?P] h2
    by simp
  have h3: "fetch_st (consumeSpaces_st (newParser (toks [q, q])))
      = (Token q None, afterBase [q, q]) \<and> tok_text (Token q None) = q"
    by (simp add: prim_eval afterBase_def newParser_def toks_def)
  have c3: "atomLoop ?P (exampleEnv True) (Some (Symbol ''mathord'' MathMode None ''x''))
        None None (newParser (toks [q, q]))
      = bnd (parsePrimes ?P) (\<lambda>g. pAtomLoop ?P (Some (Symbol ''mathord'' MathMode None ''x''))
          (Some g) None) (afterBase [q, q])"
    using primes_superscript [where ?st0.0 = "newParser (toks [q, q])" and tk = "Token q None"
        and st = "afterBase [q, q]" and P = ?P] h3
    by blast
  show ?thesis
    unfolding c1 c2 c3
    by (simp add: prim_eval regex_eval parser_eval env_eval afterBase_def afterRun_def
        primeNode_def
        cong: bnd_cong_weak bnd_res_cong_weak thn_cong_weak)
qed


text \<open>
  C7. A round of the loop of \<open>parseAtom\<close> (reached in math mode only) skips spaces and
  looks at the next token: \<open>^\<close> with a superscript already set raises
  \<open>Double superscript\<close>, \<open>_\<close> with a subscript already set raises \<open>Double subscript\<close>, and a
  prime with a superscript already set raises \<open>Double superscript\<close>; so \<open>x^2^3\<close>, \<open>x_2_3\<close>
  and \<open>x^2'\<close> fail with these messages.
\<close>

theorem double_scripts:
  "(fetch_st (consumeSpaces_st st) = (tk, st2) \<longrightarrow>
      (tok_text tk = ''^'' \<longrightarrow>
         atomLoop P env base (Some s) sb st
           = (Inl (ParseError ''Double superscript'' (Some tk)), st2)) \<and>
      (tok_text tk = ''_'' \<longrightarrow>
         atomLoop P env base sp (Some s) st
           = (Inl (ParseError ''Double subscript'' (Some tk)), st2)) \<and>
      (tok_text tk = q \<longrightarrow>
         atomLoop P env base (Some s) sb st
           = (Inl (ParseError ''Double superscript'' (Some tk)), st2))) \<and>
   fst (parse (Parser 20 (exampleEnv True)) (exampleEnv True)
          (newParser (toks [''x'', ''^'', ''2'', ''^'', ''3''])))
     = Inl (ParseError ''Double superscript'' (Some (Token ''^'' None))) \<and>
   fst (parse (Parser 20 (exampleEnv True)) (exampleEnv True)
          (newParser (toks [''x'', ''_'', ''2'', ''_'', ''3''])))
     = Inl (ParseError ''Double subscript'' (Some (Token ''_'' None))) \<and>
   fst (parse (Parser 20 (exampleEnv True)) (exampleEnv True)
          (newParser (toks [''x'', ''^'', ''2'', q])))
     = Inl (ParseError ''Double superscript'' (Some (Token q None)))"
proof (intro conjI impI)
  assume "fetch_st (consumeSpaces_st st) = (tk, st2)" "tok_text tk = ''^''"
  then show "atomLoop P env base (Some s) sb st
           = (Inl (ParseError ''Double superscript'' (Some tk)), st2)"
    by (simp add: atomLoop_def thn_apply consumeSpaces_def bnd_res_simps bnd_def fetch_def
        throw_def bs_def)
next
  assume "fetch_st (consumeSpaces_st st) = (tk, st2)" "tok_text tk = ''_''"
  then show "atomLoop P env base sp (Some s) st
           = (Inl (ParseError ''Double subscript'' (Some tk)), st2)"
    by (simp add: atomLoop_def thn_apply consumeSpaces_def bnd_res_simps bnd_def fetch_def
        throw_def bs_def)
next
  assume "fetch_st (consumeSpaces_st st) = (tk, st2)" "tok_text tk = q"
  then show "atomLoop P env base (Some s) sb st
           = (Inl (ParseError ''Double superscript'' (Some tk)), st2)"
    by (simp add: atomLoop_def thn_apply consumeSpaces_def bnd_res_simps bnd_def fetch_def
        throw_def bs_def q_def)
qed (simp_all add: prim_eval regex_eval parser_eval env_eval
      cong: bnd_cong_weak bnd_res_cong_weak thn_cong_weak)


text \<open>The theorem at the second script of \<open>x^2 ^3\<close>, of \<open>x_2_3\<close> and of \<open>x^2'\<close>.\<close>

theorem double_scripts_witness:
  "atomLoop (Parser 5 (exampleEnv True)) (exampleEnv True)
     (Some (Symbol ''mathord'' MathMode None ''x'')) (Some (Symbol ''textord'' MathMode None ''2''))
     None (newParser (toks ['' '', ''^'', ''3'']))
     = (Inl (ParseError ''Double superscript'' (Some (Token ''^'' None))),
        afterBase [''^'', ''3'']) \<and>
   atomLoop (Parser 5 (exampleEnv True)) (exampleEnv True)
     (Some (Symbol ''mathord'' MathMode None ''x'')) None
     (Some (Symbol ''textord'' MathMode None ''2'')) (newParser (toks [''_'', ''3'']))
     = (Inl (ParseError ''Double subscript'' (Some (Token ''_'' None))),
        afterBase [''_'', ''3'']) \<and>
   atomLoop (Parser 5 (exampleEnv True)) (exampleEnv True)
     (Some (Symbol ''mathord'' MathMode None ''x'')) (Some (Symbol ''textord'' MathMode None ''2''))
     None (newParser (toks [q]))
     = (Inl (ParseError ''Double superscript'' (Some (Token q None))), afterBase [q])"
proof -
  have f1: "fetch_st (consumeSpaces_st (newParser (toks ['' '', ''^'', ''3''])))
      = (Token ''^'' None, afterBase [''^'', ''3''])"
    and f2: "fetch_st (consumeSpaces_st (newParser (toks [''_'', ''3''])))
      = (Token ''_'' None, afterBase [''_'', ''3''])"
    and f3: "fetch_st (consumeSpaces_st (newParser (toks [q]))) = (Token q None, afterBase [q])"
    by (simp_all add: prim_eval afterBase_def newParser_def toks_def)
  note d = double_scripts [where P = "Parser 5 (exampleEnv True)" and env = "exampleEnv True"
      and base = "Some (Symbol ''mathord'' MathMode None ''x'')"
      and s = "Symbol ''textord'' MathMode None ''2''" and sp = None and sb = None]
  from d [where st = "newParser (toks ['' '', ''^'', ''3''])" and tk = "Token ''^'' None"
      and ?st2.0 = "afterBase [''^'', ''3'']"] f1
  have c1: "atomLoop (Parser 5 (exampleEnv True)) (exampleEnv True)
     (Some (Symbol ''mathord'' MathMode None ''x'')) (Some (Symbol ''textord'' MathMode None ''2''))
     None (newParser (toks ['' '', ''^'', ''3'']))
     = (Inl (ParseError ''Double superscript'' (Some (Token ''^'' None))),
        afterBase [''^'', ''3''])"
    by simp
  from d [where st = "newParser (toks [''_'', ''3''])" and tk = "Token ''_'' None"
      and ?st2.0 = "afterBase [''_'', ''3'']"] f2
  have c2: "atomLoop (Parser 5 (exampleEnv True)) (exampleEnv True)
     (Some (Symbol ''mathord'' MathMode None ''x'')) None
     (Some (Symbol ''textord'' MathMode None ''2'')) (newParser (toks [''_'', ''3'']))
     = (Inl (ParseError ''Double subscript'' (Some (Token ''_'' None))),
        afterBase [''_'', ''3''])"
    by simp
  from d [where st = "newParser (toks [q])" and tk = "Token q None"
      and ?st2.0 = "afterBase [q]"] f3
  have c3: "atomLoop (Parser 5 (exampleEnv True)) (exampleEnv True)
     (Some (Symbol ''mathord'' MathMode None ''x'')) (Some (Symbol ''textord'' MathMode None ''2''))
     None (newParser (toks [q]))
     = (Inl (ParseError ''Double superscript'' (Some (Token q None))), afterBase [q])"
    by simp
  from c1 c2 c3 show ?thesis by blast
qed


section \<open>Arguments and result of \<open>\zInput\<close>\<close>



text \<open>
  The Number conversion: a number below 2^53 is kept, and a number of 2^1024 or more has
  no double (\<open>parseInt\<close> returns an infinity).
\<close>

lemma roundToDouble_exact: "n < 2 ^ 53 \<Longrightarrow> roundToDouble n = Some n"
  by (simp add: roundToDouble_def)

lemma bitLength_ge: "2 ^ k \<le> n \<Longrightarrow> k < bitLength n"
proof (induction n arbitrary: k rule: bitLength.induct)
  case (1 n)
  from 1(2) have n0: "n \<noteq> 0" by (cases "n = 0") simp_all
  show ?case
  proof (cases k)
    case 0 then show ?thesis using n0 by (subst bitLength.simps) simp
  next
    case (Suc k')
    with 1(2) have "2 ^ k' \<le> n div 2" by auto
    from 1(1) [OF n0 this] show ?thesis using n0 Suc by (subst bitLength.simps) simp
  qed
qed

lemma bitLength_le: "n < 2 ^ k \<Longrightarrow> bitLength n \<le> k"
proof (induction n arbitrary: k rule: bitLength.induct)
  case (1 n)
  show ?case
  proof (cases "n = 0")
    case True then show ?thesis by (simp add: bitLength.simps)
  next
    case False
    with 1 obtain k' where k: "k = Suc k'" by (cases k) auto
    with 1(2) have "n div 2 < 2 ^ k'" by auto
    from 1(1) [OF False this] show ?thesis using False k by (subst bitLength.simps) simp
  qed
qed

lemma roundToDouble_overflow: "2 ^ 1024 \<le> n \<Longrightarrow> roundToDouble n = None"
proof -
  assume big: "2 ^ 1024 \<le> n"
  define e where "e = bitLength n - 53"
  have "(2::nat) ^ 53 \<le> 2 ^ 1024" by simp
  with big have n53: "\<not> n < 2 ^ 53" by simp
  from bitLength_ge [OF big] have bl: "1024 < bitLength n" .
  have "n < 2 ^ bitLength n"
    using bitLength_ge [of "bitLength n" n] by (auto simp: not_le [symmetric])
  have ge: "2 ^ (bitLength n - 1) \<le> n"
    using bitLength_le [of n "bitLength n - 1"] bl by (auto simp: not_less [symmetric])
  have "bitLength n - 1 = 52 + e" using bl by (simp add: e_def)
  with ge have "2 ^ 52 * 2 ^ e \<le> n" by (simp add: power_add)
  then have hi: "2 ^ 52 \<le> n div 2 ^ e"
    by (simp add: less_eq_div_iff_mult_less_eq)
  have "1024 \<le> 52 + e" using bl by (simp add: e_def)
  then have "(2::nat) ^ 1024 \<le> 2 ^ (52 + e)" by (intro power_increasing) simp_all
  also have "\<dots> = 2 ^ 52 * 2 ^ e" by (simp add: power_add)
  also have "\<dots> \<le> (n div 2 ^ e) * 2 ^ e" using hi by simp
  finally have a: "2 ^ 1024 \<le> (n div 2 ^ e) * 2 ^ e" .
  then have b: "2 ^ 1024 \<le> (n div 2 ^ e + 1) * 2 ^ e" by (simp add: algebra_simps)
  show ?thesis
    using n53 a b unfolding roundToDouble_def Let_def e_def [symmetric]
    by (auto simp del: power_numeral)
qed


lemma parseInt_overflow:
  assumes "parseDigits (if take 1 (dropWhile isWhiteSpace str) = ''-'' \<or>
                           take 1 (dropWhile isWhiteSpace str) = ''+''
                        then drop 1 (dropWhile isWhiteSpace str)
                        else dropWhile isWhiteSpace str) = Some n"
    and "2 ^ 1024 \<le> n"
  shows "parseInt str = Infinity (take 1 (dropWhile isWhiteSpace str) = ''-'')"
  using assms(1) roundToDouble_overflow [OF assms(2)]
  by (simp add: parseInt_def Let_def)



end
